theory Spec2Isabelle
  imports Main "HOL-Library.AList" "HOL-Library.Sublist"
begin

section \<open>The launcher of the ToolHive MCP server (bin/toolhive-mcp.js, bin/setup.js)\<close>

text \<open>
  The launcher is a Node.js script. Everything it does is an effect on the outside world:
  it asks the file system whether a path exists, it starts child processes and waits for
  their \<open>close\<close> or \<open>error\<close> event, and it prints status lines. The model makes each of
  these explicit.

  \<^item> The outside world is a value of type \<open>world\<close>. The answer of the world may change
    over time, so the outcome of a child process and the answer of \<open>fs.existsSync\<close> are
    indexed by a clock that counts the child processes started so far.
  \<^item> The program state is the clock together with the trace of effects performed
    so far (status lines, spawn calls, signals sent to the server process).
  \<^item> A child process that was started delivers \<open>close\<close> with an exit code (\<open>null\<close>
    when killed by a signal) and the text collected from its stderr. A child that could
    not be started delivers \<open>error\<close> with a message and then \<open>close\<close> with a negative
    error number in place of the exit code and nothing on stderr: both handlers run, the
    one of \<open>error\<close> first.
  \<^item> \<open>process.exit(n)\<close> is the value \<open>Inl (ProcessExit n)\<close> of the functions that can
    reach it.
\<close>

subsection \<open>Data\<close>

datatype status = Info | Success | Warning | Error

datatype stdio = Pipe | Inherit | IgnorePipePipe

datatype signal = SIGINT | SIGTERM

text \<open>The arguments of one call of \<open>child_process.spawn\<close>.\<close>

record spawn_call =
  command :: string
  arguments :: "string list"
  cwd :: "string option"
  stdio_opt :: stdio
  env_opt :: "(string \<times> string) list option"

text \<open>
  What a child process delivers to its handlers: \<open>Close code err\<close> is a \<open>close\<close> alone,
  \<open>ErrorEvent msg\<close> is an \<open>error\<close> followed by a \<open>close\<close> with a negative code and empty
  stderr.
\<close>

datatype proc_result =
    Close "int option" string
  | ErrorEvent string

datatype event =
    Print status string
  | ConsoleError string
  | Spawn spawn_call
  | Kill signal

datatype halt = ProcessExit int

record world =
  child_result :: "nat \<Rightarrow> spawn_call \<Rightarrow> proc_result"
  fs_existsSync :: "nat \<Rightarrow> string \<Rightarrow> bool"
  path_join :: "string list \<Rightarrow> string"
  script_dirname :: string
  packageDir :: string
  process_platform :: string
  process_env :: "(string \<times> string) list"
  os_homedir :: string

record state =
  clock :: nat
  trace :: "event list"

definition init :: state where
  "init = \<lparr>clock = 0, trace = []\<rparr>"

subsection \<open>Primitive effects\<close>

definition printStatus :: "string \<Rightarrow> status \<Rightarrow> state \<Rightarrow> state" where
  "printStatus message type s = s\<lparr>trace := trace s @ [Print type message]\<rparr>"

text \<open>
  \<open>spawn\<close> records the call, advances the clock and hands back the event that the child
  will deliver.
\<close>

definition start :: "spawn_call \<Rightarrow> state \<Rightarrow> state" where
  "start c s = s\<lparr>clock := Suc (clock s), trace := trace s @ [Spawn c]\<rparr>"

definition spawn :: "world \<Rightarrow> spawn_call \<Rightarrow> state \<Rightarrow> proc_result \<times> state" where
  "spawn W c s = (child_result W (clock s) c, start c s)"

text \<open>Template literals print a number in decimal and \<open>null\<close> as the word.\<close>

definition digit_char :: "nat \<Rightarrow> char" where
  "digit_char d = ''0123456789'' ! d"

fun decimal :: "nat \<Rightarrow> string" where
  "decimal n = (if 10 \<le> n then decimal (n div 10) @ [digit_char (n mod 10)] else [digit_char n])"

definition string_of_code :: "int option \<Rightarrow> string" where
  "string_of_code code =
     (case code of
        None \<Rightarrow> ''null''
      | Some i \<Rightarrow> if 0 \<le> i then decimal (nat i) else CHR ''-'' # decimal (nat (- i)))"

text \<open>\<open>String.prototype.includes\<close>: does \<open>sub\<close> occur in \<open>s\<close> as a contiguous piece.\<close>

fun str_includes :: "string \<Rightarrow> string \<Rightarrow> bool" where
  "str_includes [] sub = (sub = [])"
| "str_includes (c # cs) sub = (prefix sub (c # cs) \<or> str_includes cs sub)"

subsection \<open>checkPython\<close>

definition pythonCommands :: "string list" where
  "pythonCommands = [''python3'', ''python'']"

definition version_call :: "string \<Rightarrow> spawn_call" where
  "version_call c = \<lparr>command = c, arguments = [''--version''], cwd = None, stdio_opt = Pipe, env_opt = None\<rparr>"

text \<open>
  The promise returned by \<open>checkPython\<close>: pending, or settled with the value of the first
  call of \<open>resolve\<close>. Later calls of \<open>resolve\<close> change nothing.
\<close>

type_synonym promise = "string option option"

definition resolve :: "string option \<Rightarrow> promise \<Rightarrow> promise" where
  "resolve v p = (case p of None \<Rightarrow> Some v | Some w \<Rightarrow> Some w)"

text \<open>A version check in flight: the index of its candidate and what it will deliver.\<close>

type_synonym probe_child = "nat \<times> proc_result"

text \<open>
  Lines 37 to 58. \<open>checkNext\<close> does not wait: beyond the end of the list it resolves with
  \<open>null\<close>, otherwise it starts the version check and registers the two handlers on it.
  The result lists the children started.
\<close>

definition checkNext ::
  "world \<Rightarrow> string list \<Rightarrow> nat \<Rightarrow> promise \<Rightarrow> state \<Rightarrow> probe_child list \<times> promise \<times> state" where
  "checkNext W cmds index p s =
     (if index \<ge> length cmds then ([], resolve None p, s)
      else
        let c = cmds ! index;
            (child, s1) = spawn W (version_call c) s
        in ([(index, child)], p, s1))"

text \<open>The handler of \<open>close\<close> (lines 46 to 53) and the handler of \<open>error\<close> (lines 55 to 57).\<close>

definition on_probe_close ::
  "world \<Rightarrow> string list \<Rightarrow> nat \<Rightarrow> int option \<Rightarrow> promise \<Rightarrow> state
     \<Rightarrow> probe_child list \<times> promise \<times> state" where
  "on_probe_close W cmds index code p s =
     (if code = Some 0 then ([], resolve (Some (cmds ! index)) p, s)
      else checkNext W cmds (index + 1) p s)"

definition on_probe_error ::
  "world \<Rightarrow> string list \<Rightarrow> nat \<Rightarrow> promise \<Rightarrow> state \<Rightarrow> probe_child list \<times> promise \<times> state" where
  "on_probe_error W cmds index p s = checkNext W cmds (index + 1) p s"

text \<open>
  What the handlers do when a version check delivers its events. A check that could not
  be started runs the handler of \<open>error\<close> and then the handler of \<open>close\<close>; the code
  passed to the latter is the negative error number (\<open>-2\<close> for a missing command), of
  which the handler only tests that it is not zero. So the next candidate is started
  twice.
\<close>

fun deliver_probe ::
  "world \<Rightarrow> string list \<Rightarrow> probe_child \<Rightarrow> promise \<Rightarrow> state \<Rightarrow> probe_child list \<times> promise \<times> state" where
  "deliver_probe W cmds (index, Close code err) p s = on_probe_close W cmds index code p s"
| "deliver_probe W cmds (index, ErrorEvent msg) p s =
     (let (q1, p1, s1) = on_probe_error W cmds index p s;
          (q2, p2, s2) = on_probe_close W cmds index (Some (- 2)) p1 s1
      in (q1 @ q2, p2, s2))"

text \<open>
  The event loop while version checks are in flight. The checks deliver their events in
  the order in which they were started; the children that a handler starts join the end
  of the queue. The loop runs until no version check is in flight; the caller of
  \<open>checkPython\<close> goes on with the value of the first \<open>resolve\<close>.
\<close>

function probe_loop ::
  "world \<Rightarrow> string list \<Rightarrow> probe_child list \<Rightarrow> promise \<Rightarrow> state \<Rightarrow> promise \<times> state" where
  "probe_loop W cmds [] p s = (p, s)"
| "probe_loop W cmds (pc # q) p s =
     (case deliver_probe W cmds pc p s of
        (started, p1, s1) \<Rightarrow> probe_loop W cmds (q @ started) p1 s1)"
  by pat_completeness auto
termination
proof (relation "measure (\<lambda>(W, cmds, q, p, s). \<Sum>(i, r)\<leftarrow>q. (3::nat) ^ (length cmds - i))")
  show "wf (measure (\<lambda>(W, cmds, q, p, s). \<Sum>(i, r)\<leftarrow>q. (3::nat) ^ (length cmds - i)))"
    by simp
next
  fix W :: world and cmds :: "string list" and pc :: probe_child and q :: "probe_child list"
    and p p1 :: promise and s s1 :: state and started :: "probe_child list"
    and x :: "promise \<times> state"
  assume d': "(started, x) = deliver_probe W cmds pc p s" and x: "(p1, s1) = x"
  from d' have d: "deliver_probe W cmds pc p s = (started, x)" by simp
  obtain i r where pc: "pc = (i, r)" by (cases pc)
  have next_weight:
    "\<And>p' s' q' p'' s''. checkNext W cmds (i + 1) p' s' = (q', p'', s'')
       \<Longrightarrow> 2 * (\<Sum>(k, r)\<leftarrow>q'. (3::nat) ^ (length cmds - k)) < 3 ^ (length cmds - i)"
  proof -
    fix p' s' q' p'' s''
    assume c: "checkNext W cmds (i + 1) p' s' = (q', p'', s'')"
    show "2 * (\<Sum>(k, r)\<leftarrow>q'. (3::nat) ^ (length cmds - k)) < 3 ^ (length cmds - i)"
    proof (cases "i + 1 \<ge> length cmds")
      case True
      with c show ?thesis by (simp add: checkNext_def)
    next
      case False
      then have e: "length cmds - i = Suc (length cmds - (i + 1))" by simp
      from False c have "(\<Sum>(k, r)\<leftarrow>q'. (3::nat) ^ (length cmds - k)) = 3 ^ (length cmds - (i + 1))"
        by (auto simp: checkNext_def Let_def split: prod.splits)
      then show ?thesis unfolding e by simp
    qed
  qed
  have "(\<Sum>(k, r)\<leftarrow>started. (3::nat) ^ (length cmds - k)) < 3 ^ (length cmds - i)"
  proof (cases r)
    case (Close code err)
    show ?thesis
    proof (cases "code = Some 0")
      case True
      with d pc Close show ?thesis by (simp add: on_probe_close_def)
    next
      case False
      with d pc Close have "checkNext W cmds (i + 1) p s = (started, x)"
        by (simp add: on_probe_close_def)
      then have "checkNext W cmds (i + 1) p s = (started, fst x, snd x)" by simp
      from next_weight[OF this] show ?thesis by simp
    qed
  next
    case (ErrorEvent msg)
    obtain q1 pa sa where a: "checkNext W cmds (i + 1) p s = (q1, pa, sa)"
      by (cases "checkNext W cmds (i + 1) p s")
    obtain q2 pb sb where b: "checkNext W cmds (i + 1) pa sa = (q2, pb, sb)"
      by (cases "checkNext W cmds (i + 1) pa sa")
    from d pc ErrorEvent a b have st: "started = q1 @ q2"
      by (simp add: on_probe_error_def on_probe_close_def)
    from next_weight[OF a] next_weight[OF b] show ?thesis
      unfolding st by simp
  qed
  then show "((W, cmds, q @ started, p1, s1), (W, cmds, pc # q, p, s))
      \<in> measure (\<lambda>(W, cmds, q, p, s). \<Sum>(i, r)\<leftarrow>q. (3::nat) ^ (length cmds - i))"
    using pc by simp
qed

declare probe_loop.simps [simp del]

text \<open>
  \<open>checkPython\<close> calls \<open>checkNext(0)\<close>; the value it returns is the one the promise
  is settled with. When the loop ends the promise is settled (lemma
  \<open>probe_candidates_settled\<close> below), so the case of a pending promise is not reached.
  \<open>probe_candidates\<close> is \<open>checkPython\<close> with the list of candidates as a parameter.
\<close>

definition probe_candidates :: "world \<Rightarrow> string list \<Rightarrow> state \<Rightarrow> string option \<times> state" where
  "probe_candidates W cmds s =
     (let (started, p, s1) = checkNext W cmds 0 None s;
          (p', s') = probe_loop W cmds started p s1
      in (case p' of None \<Rightarrow> None | Some v \<Rightarrow> v, s'))"

definition checkPython :: "world \<Rightarrow> state \<Rightarrow> string option \<times> state" where
  "checkPython W s = probe_candidates W pythonCommands s"

subsection \<open>createVirtualEnv\<close>

definition venvPath :: "world \<Rightarrow> string" where
  "venvPath W = path_join W [packageDir W, ''.venv'']"

definition venv_call :: "world \<Rightarrow> string \<Rightarrow> spawn_call" where
  "venv_call W pythonCmd =
     \<lparr>command = pythonCmd, arguments = [''-m'', ''venv'', ''.venv''],
      cwd = Some (packageDir W), stdio_opt = Pipe, env_opt = None\<rparr>"

text \<open>
  The promise around the child is rejected on a non-zero \<open>close\<close> and on \<open>error\<close>; both
  rejections land in the \<open>catch\<close> block, which prints the message and returns \<open>false\<close>.
  The \<open>close\<close> that follows an \<open>error\<close> rejects a promise that is already rejected and
  prints nothing.
\<close>

definition createVirtualEnv :: "world \<Rightarrow> string \<Rightarrow> state \<Rightarrow> bool \<times> state" where
  "createVirtualEnv W pythonCmd s =
     (if fs_existsSync W (clock s) (venvPath W)
      then (True, printStatus ''Virtual environment already exists'' Success s)
      else
        let s1 = printStatus ''Creating virtual environment...'' Info s;
            (child, s2) = spawn W (venv_call W pythonCmd) s1
        in case child of
             Close code err \<Rightarrow>
               if code = Some 0
               then (True, printStatus ''Virtual environment created successfully!'' Success s2)
               else (False,
                     printStatus (''Failed to create virtual environment: ''
                        @ (''Failed to create virtual environment: '' @ string_of_code code)) Error s2)
           | ErrorEvent msg \<Rightarrow>
               (False, printStatus (''Failed to create virtual environment: '' @ msg) Error s2))"

subsection \<open>installPythonDependencies\<close>

record install_method =
  name :: string
  cmd :: string
  args :: "string list"

definition requirementsPath :: "world \<Rightarrow> string" where
  "requirementsPath W = path_join W [packageDir W, ''requirements.txt'']"

definition venvPythonPath :: "world \<Rightarrow> string" where
  "venvPythonPath W =
     (if process_platform W = ''win32''
      then path_join W [packageDir W, ''.venv'', ''Scripts'', ''python.exe'']
      else path_join W [packageDir W, ''.venv'', ''bin'', ''python3''])"

text \<open>Lines 115 to 126: which interpreter the first install method runs.\<close>

definition selectInstallPython :: "world \<Rightarrow> string \<Rightarrow> bool \<Rightarrow> state \<Rightarrow> string \<times> state" where
  "selectInstallPython W pythonCmd venvCreated s =
     (if venvCreated
      then
        if fs_existsSync W (clock s) (venvPythonPath W)
        then (venvPythonPath W,
              printStatus ''Using virtual environment for dependency installation'' Info s)
        else (pythonCmd, s)
      else (pythonCmd, s))"

definition installMethods :: "world \<Rightarrow> string \<Rightarrow> string \<Rightarrow> install_method list" where
  "installMethods W pythonCmd finalPythonCmd =
     [\<lparr>name = ''virtual environment'', cmd = finalPythonCmd,
       args = [''-m'', ''pip'', ''install'', ''-r'', requirementsPath W]\<rparr>,
      \<lparr>name = ''user install with break-system-packages'', cmd = pythonCmd,
       args = [''-m'', ''pip'', ''install'', ''--user'', ''--break-system-packages'', ''-r'',
               requirementsPath W]\<rparr>,
      \<lparr>name = ''user install'', cmd = pythonCmd,
       args = [''-m'', ''pip'', ''install'', ''--user'', ''-r'', requirementsPath W]\<rparr>,
      \<lparr>name = ''system install with break-system-packages'', cmd = pythonCmd,
       args = [''-m'', ''pip'', ''install'', ''--break-system-packages'', ''-r'',
               requirementsPath W]\<rparr>]"

definition install_call :: "world \<Rightarrow> install_method \<Rightarrow> spawn_call" where
  "install_call W m =
     \<lparr>command = cmd m, arguments = args m, cwd = Some (packageDir W),
      stdio_opt = IgnorePipePipe, env_opt = None\<rparr>"

text \<open>
  Line 177 and line 185: the promise around an install process is resolved by a
  \<open>close\<close> with code zero or with one of the two markers in the collected stderr, and
  rejected otherwise. After an \<open>error\<close> the promise is rejected; the \<open>close\<close> that
  follows has a non-zero code and an empty stderr, so its handler rejects again, which
  changes nothing, and prints nothing.
\<close>

fun install_resolved :: "proc_result \<Rightarrow> bool" where
  "install_resolved (Close code err) =
     (code = Some 0 \<or> str_includes err ''already satisfied''
        \<or> str_includes err ''Requirement already satisfied'')"
| "install_resolved (ErrorEvent msg) = False"

text \<open>The message of the error that the \<open>catch\<close> block of the loop prints.\<close>

fun install_error_message :: "install_method \<Rightarrow> proc_result \<Rightarrow> string" where
  "install_error_message m (Close code err) = name m @ '' failed: '' @ err"
| "install_error_message m (ErrorEvent msg) = msg"

text \<open>
  The \<open>for\<close> loop over the install methods. The result is \<open>True\<close> when the function
  returned from inside the loop and \<open>False\<close> when the loop ran out of methods.
\<close>

fun installLoop :: "world \<Rightarrow> install_method list \<Rightarrow> state \<Rightarrow> bool \<times> state" where
  "installLoop W [] s = (False, s)"
| "installLoop W (m # ms) s =
     (let s1 = printStatus (''Trying '' @ name m @ ''...'') Info s;
          (child, s2) = spawn W (install_call W m) s1
      in if install_resolved child
         then (True,
               printStatus (''Dependencies installed successfully using '' @ name m @ ''!'')
                 Success s2)
         else installLoop W ms
                (printStatus (name m @ '' failed: '' @ install_error_message m child)
                   Warning s2))"

definition allFailed :: "state \<Rightarrow> state" where
  "allFailed s =
     printStatus ''Continuing anyway - some features may not work.'' Warning
      (printStatus ''  pip3 install --user --break-system-packages -r requirements.txt'' Info
        (printStatus
           ''  python3 -m venv .venv && source .venv/bin/activate && pip install -r requirements.txt''
           Info
          (printStatus ''Please install manually with one of these commands:'' Info
            (printStatus ''Could not install dependencies automatically.'' Error s))))"

definition installPythonDependencies :: "world \<Rightarrow> string \<Rightarrow> state \<Rightarrow> state" where
  "installPythonDependencies W pythonCmd s =
     (let s0 = printStatus ''Installing Python dependencies...'' Info s
      in if \<not> fs_existsSync W (clock s0) (requirementsPath W)
         then printStatus ''No requirements.txt found, skipping dependency installation'' Warning s0
         else
           let (venvCreated, s1) = createVirtualEnv W pythonCmd s0;
               (finalPythonCmd, s2) = selectInstallPython W pythonCmd venvCreated s1;
               (returned, s3) = installLoop W (installMethods W pythonCmd finalPythonCmd) s2
           in if returned then s3 else allFailed s3)"

subsection \<open>setupPython\<close>

definition setup_py_call :: "world \<Rightarrow> string \<Rightarrow> spawn_call" where
  "setup_py_call W pythonCmd =
     \<lparr>command = pythonCmd, arguments = [path_join W [packageDir W, ''setup.py'']],
      cwd = Some (packageDir W), stdio_opt = Inherit, env_opt = None\<rparr>"

text \<open>
  In the \<open>setup.py\<close> step both handlers print before they resolve, so a child that could
  not be started leaves two warnings: the one of \<open>error\<close>, then the one of \<open>close\<close> with
  its non-zero code.
\<close>

definition setupPython :: "world \<Rightarrow> state \<Rightarrow> (halt + unit) \<times> state" where
  "setupPython W s =
     (let s0 = printStatus ''Setting up ToolHive MCP Server...'' Info s;
          (found, s1) = checkPython W s0
      in case found of
           None \<Rightarrow>
             (Inl (ProcessExit 1),
              printStatus ''Please install Python 3.8 or higher and try again'' Error
                (printStatus ''Python 3.8+ is required but not found'' Error s1))
         | Some pythonCmd \<Rightarrow>
             let s2 = printStatus (''Found Python: '' @ pythonCmd) Success s1;
                 s3 = installPythonDependencies W pythonCmd s2
             in if fs_existsSync W (clock s3) (path_join W [packageDir W, ''setup.py''])
                   \<and> \<not> fs_existsSync W (clock s3) (venvPath W)
                then
                  let s4 = printStatus ''Running additional setup...'' Info s3;
                      (child, s5) = spawn W (setup_py_call W pythonCmd) s4
                  in case child of
                       Close code err \<Rightarrow>
                         if code = Some 0
                         then (Inr (),
                               printStatus ''Additional setup completed successfully!'' Success s5)
                         else (Inr (),
                               printStatus ''Additional setup had issues, but continuing...''
                                 Warning s5)
                     | ErrorEvent msg \<Rightarrow>
                         (Inr (),
                          printStatus ''Additional setup had issues, but continuing...'' Warning
                            (printStatus (''Setup warning: '' @ msg) Warning s5))
                else (Inr (), s3))"

subsection \<open>runServer\<close>

text \<open>
  The environment object of the server process: a copy of \<open>process.env\<close> in which the two
  keys are assigned. Assigning a key of a JavaScript object replaces the value in place
  when the key is present and appends the key otherwise, which is \<open>AList.update\<close>.
  The operator \<open>||\<close> takes its right operand when the variable is unset or empty.
\<close>

definition server_env :: "world \<Rightarrow> (string \<times> string) list" where
  "server_env W =
     AList.update ''PYTHONUSERBASE''
       (case map_of (process_env W) ''PYTHONUSERBASE'' of
          None \<Rightarrow> path_join W [os_homedir W, ''.local'']
        | Some v \<Rightarrow> if v = [] then path_join W [os_homedir W, ''.local''] else v)
       (AList.update ''PYTHONPATH'' (packageDir W) (process_env W))"

definition server_call :: "world \<Rightarrow> string \<Rightarrow> spawn_call" where
  "server_call W finalPythonCmd =
     \<lparr>command = finalPythonCmd,
      arguments = [path_join W [packageDir W, ''toolhive_server.py'']],
      cwd = Some (packageDir W), stdio_opt = Inherit, env_opt = Some (server_env W)\<rparr>"

text \<open>
  \<open>runServer\<close> does not wait for the server: it starts it, registers the handlers of
  the next subsection and returns.
\<close>

definition runServer :: "world \<Rightarrow> state \<Rightarrow> (halt + unit) \<times> state" where
  "runServer W s =
     (let (found, s1) = checkPython W s
      in case found of
           None \<Rightarrow> (Inl (ProcessExit 1), printStatus ''Python not found'' Error s1)
         | Some pythonCmd \<Rightarrow>
             let finalPythonCmd =
                   (if fs_existsSync W (clock s1) (venvPythonPath W)
                    then venvPythonPath W else pythonCmd);
                 s2 = printStatus ''Starting ToolHive MCP Server...'' Info s1
             in (Inr (), start (server_call W finalPythonCmd) s2))"

subsection \<open>The handlers registered by runServer\<close>

text \<open>
  Lines 289 to 308: the handlers of \<open>close\<close> and \<open>error\<close> on the server process and
  of \<open>SIGINT\<close> and \<open>SIGTERM\<close> on the launcher. \<open>serverProcess.kill(sig)\<close> is recorded
  in the trace.
\<close>

definition kill :: "signal \<Rightarrow> state \<Rightarrow> state" where
  "kill sig s = s\<lparr>trace := trace s @ [Kill sig]\<rparr>"

definition on_server_close :: "int option \<Rightarrow> state \<Rightarrow> state" where
  "on_server_close code s =
     (if code \<noteq> Some 0
      then printStatus (''Server exited with code '' @ string_of_code code) Error s
      else s)"

definition on_server_error :: "string \<Rightarrow> state \<Rightarrow> state" where
  "on_server_error msg s = printStatus (''Server error: '' @ msg) Error s"

definition on_signal :: "signal \<Rightarrow> state \<Rightarrow> state" where
  "on_signal sig s = kill sig (printStatus ''Shutting down server...'' Info s)"

text \<open>
  After \<open>runServer\<close> has returned the launcher only reacts to events. The Node.js process
  stays alive as long as the handle of the server process is open, and ends once the
  handle is closed and nothing else is pending; its exit status is then
  \<open>process.exitCode\<close>, which the script never assigns, so the status is 0.
  No handler runs in a process that has ended.
\<close>

datatype server_event =
    ServerClose "int option"
  | ServerError string
  | Received signal

record launcher =
  prog :: state
  server_open :: bool
  ended :: "int option"

definition launched :: "state \<Rightarrow> launcher" where
  "launched s = \<lparr>prog = s, server_open = True, ended = None\<rparr>"

fun deliver :: "server_event \<Rightarrow> launcher \<Rightarrow> launcher" where
  "deliver e L =
     (if ended L \<noteq> None then L
      else case e of
             ServerClose code \<Rightarrow>
               L\<lparr>prog := on_server_close code (prog L), server_open := False, ended := Some 0\<rparr>
           | ServerError msg \<Rightarrow> L\<lparr>prog := on_server_error msg (prog L)\<rparr>
           | Received sig \<Rightarrow> L\<lparr>prog := on_signal sig (prog L)\<rparr>)"

fun deliver_all :: "server_event list \<Rightarrow> launcher \<Rightarrow> launcher" where
  "deliver_all [] L = L"
| "deliver_all (e # es) L = deliver_all es (deliver e L)"

subsection \<open>main\<close>

definition main :: "world \<Rightarrow> string list \<Rightarrow> state \<Rightarrow> (halt + unit) \<times> state" where
  "main W argv s =
     (case setupPython W s of
        (Inl h, s1) \<Rightarrow> (Inl h, s1)
      | (Inr u, s1) \<Rightarrow>
          if List.member argv ''--setup-only''
          then (Inr (),
                printStatus ''Setup completed. Run without --setup-only to start the server.''
                  Success s1)
          else runServer W s1)"

subsection \<open>bin/setup.js\<close>

definition setup_only_call :: "world \<Rightarrow> spawn_call" where
  "setup_only_call W =
     \<lparr>command = ''node'',
      arguments = [path_join W [script_dirname W, ''toolhive-mcp.js''], ''--setup-only''],
      cwd = Some (packageDir W), stdio_opt = Inherit, env_opt = None\<rparr>"

text \<open>\<open>process.exit(null)\<close> ends the process with status 0.\<close>

definition setup_js :: "world \<Rightarrow> state \<Rightarrow> halt \<times> state" where
  "setup_js W s =
     (let (child, s1) = spawn W (setup_only_call W) s
      in case child of
           Close code err \<Rightarrow> (ProcessExit (case code of None \<Rightarrow> 0 | Some n \<Rightarrow> n), s1)
         | ErrorEvent msg \<Rightarrow>
             (ProcessExit 1, s1\<lparr>trace := trace s1 @ [ConsoleError (''Setup error: '' @ msg)]\<rparr>))"

subsection \<open>Observations used in the statements\<close>

text \<open>The calls of \<open>spawn\<close> recorded in a trace, oldest first.\<close>

fun spawn_calls :: "event list \<Rightarrow> spawn_call list" where
  "spawn_calls [] = []"
| "spawn_calls (Spawn c # es) = c # spawn_calls es"
| "spawn_calls (e # es) = spawn_calls es"

text \<open>A child that closed with exit code zero.\<close>

fun exits_zero :: "proc_result \<Rightarrow> bool" where
  "exits_zero (Close code err) = (code = Some 0)"
| "exits_zero (ErrorEvent msg) = False"

text \<open>
  The exit code and the stderr text of a child. A child that could not be started has
  no exit code of its own (its \<open>close\<close> carries a negative error number) and has
  written nothing that the launcher collected.
\<close>

fun exit_code :: "proc_result \<Rightarrow> int option" where
  "exit_code (Close code err) = code"
| "exit_code (ErrorEvent msg) = None"

fun stderr_text :: "proc_result \<Rightarrow> string" where
  "stderr_text (Close code err) = err"
| "stderr_text (ErrorEvent msg) = []"

definition already_satisfied_marker :: "string \<Rightarrow> bool" where
  "already_satisfied_marker err =
     (str_includes err ''already satisfied'' \<or> str_includes err ''Requirement already satisfied'')"

text \<open>
  The failure of an install attempt in the words of the specification: a non-zero exit
  and no marker in stderr.
\<close>

definition spec_attempt_failed :: "proc_result \<Rightarrow> bool" where
  "spec_attempt_failed r = (exit_code r \<noteq> Some 0 \<and> \<not> already_satisfied_marker (stderr_text r))"



text \<open>The state after the version checks of the candidates \<open>cs\<close>, in this order.\<close>

definition probed :: "string list \<Rightarrow> state \<Rightarrow> state" where
  "probed cs s =
     s\<lparr>clock := clock s + length cs,
       trace := trace s @ map (\<lambda>c. Spawn (version_call c)) cs\<rparr>"

text \<open>
  The outcome of install method \<open>k\<close> of the list \<open>ms\<close> when the loop starts at
  time \<open>t\<close>.
\<close>

definition attempt :: "world \<Rightarrow> nat \<Rightarrow> install_method list \<Rightarrow> nat \<Rightarrow> proc_result" where
  "attempt W t ms k = child_result W (t + k) (install_call W (ms ! k))"

text \<open>
  The interpreter of the first install method and the state in which the loop starts:
  lines 103 and 112 to 126.
\<close>

definition install_start :: "world \<Rightarrow> string \<Rightarrow> state \<Rightarrow> string \<times> state" where
  "install_start W pythonCmd s =
     (let (venvCreated, s1) =
            createVirtualEnv W pythonCmd (printStatus ''Installing Python dependencies...'' Info s)
      in selectInstallPython W pythonCmd venvCreated s1)"

subsection \<open>A concrete world for examples\<close>

text \<open>
  The children deliver the events of a script, one per child in the order in which they
  are started; the files are listed per clock value. Paths are joined with a slash.
\<close>

fun join_slash :: "string list \<Rightarrow> string" where
  "join_slash [] = ''.''"
| "join_slash [p] = p"
| "join_slash (p # q # ps) = p @ ''/'' @ join_slash (q # ps)"

definition example_world :: "proc_result list \<Rightarrow> (nat \<Rightarrow> string list) \<Rightarrow> world" where
  "example_world script files =
     \<lparr>child_result = (\<lambda>t c. if t < length script then script ! t else ErrorEvent ''spawn ENOENT''),
      fs_existsSync = (\<lambda>t p. p \<in> set (files t)),
      path_join = join_slash,
      script_dirname = ''/pkg/bin'',
      packageDir = ''/pkg'',
      process_platform = ''linux'',
      process_env = [(''HOME'', ''/home/u''), (''PYTHONPATH'', ''/old'')],
      os_homedir = ''/home/u''\<rparr>"

text \<open>
  A machine with \<open>requirements.txt\<close> and a complete virtual environment, where the
  first install process exits with code 1 and the second with code 0.
\<close>

definition second_method_world :: world where
  "second_method_world =
     example_world
       [Close (Some 1) ''error: externally-managed-environment'', Close (Some 0) []]
       (\<lambda>t. [''/pkg/requirements.txt'', ''/pkg/.venv'', ''/pkg/.venv/bin/python3''])"

text \<open>
  A machine with \<open>requirements.txt\<close> and no virtual environment, where \<open>python3\<close>
  answers the version check, the creation of the virtual environment exits with code 1
  and each of the four install processes fails in its own way.
\<close>

definition exhausted_world :: world where
  "exhausted_world =
     example_world
       [Close (Some 0) ''Python 3.11.2'', Close (Some 1) ''Error: ensurepip is not available'',
        Close (Some 1) ''error: externally-managed-environment'',
        ErrorEvent ''spawn python3 EAGAIN'', Close None [], Close (Some 2) ''no such option'']
       (\<lambda>t. [''/pkg/requirements.txt''])"

text \<open>
  A machine with \<open>setup.py\<close> but neither \<open>requirements.txt\<close> nor a virtual environment,
  where every process exits with code 0.
\<close>

definition bare_world :: world where
  "bare_world =
     example_world [Close (Some 0) ''Python 3.11.2'', Close (Some 0) []] (\<lambda>t. [''/pkg/setup.py''])"

text \<open>
  A machine with \<open>requirements.txt\<close> and a directory \<open>.venv\<close> that holds no
  \<open>bin/python3\<close>; the first install process exits with code 0.
\<close>

definition partial_venv_world :: world where
  "partial_venv_world =
     example_world [Close (Some 0) []] (\<lambda>t. [''/pkg/requirements.txt'', ''/pkg/.venv''])"


section \<open>Properties\<close>

subsection \<open>Helper lemmas\<close>

lemmas example_defs =
  second_method_world_def example_world_def init_def
  requirementsPath_def venvPath_def venvPythonPath_def

lemmas checkPython_eval =
  checkPython_def probe_candidates_def pythonCommands_def checkNext_def probe_loop.simps
  on_probe_close_def on_probe_error_def resolve_def spawn_def Let_def

lemma spawn_calls_append: "spawn_calls (xs @ ys) = spawn_calls xs @ spawn_calls ys"
  by (induction xs rule: spawn_calls.induct) simp_all

text \<open>\<open>str_includes\<close> is the contiguous-sublist relation of the library.\<close>

lemma str_includes_sublist: "str_includes s sub \<longleftrightarrow> sublist sub s"
  by (induction s) (simp_all add: sublist_Cons_right)

lemma clock_printStatus [simp]: "clock (printStatus msg ty s) = clock s"
  by (simp add: printStatus_def)

lemma trace_printStatus [simp]: "trace (printStatus msg ty s) = trace s @ [Print ty msg]"
  by (simp add: printStatus_def)

lemma clock_start [simp]: "clock (start c s) = Suc (clock s)"
  by (simp add: start_def)

lemma trace_start [simp]: "trace (start c s) = trace s @ [Spawn c]"
  by (simp add: start_def)


lemma probed_start: "probed cs (start (version_call c) s) = probed (c # cs) s"
  by (simp add: probed_def start_def)

subsection \<open>C3: checkPython\<close>


lemma clock_probed [simp]: "clock (probed cs s) = clock s + length cs"
  by (simp add: probed_def)

lemma resolve_resolve [simp]: "resolve v (resolve v p) = resolve v p"
  by (cases p) (simp_all add: resolve_def)

lemma resolve_not_pending [simp]: "resolve v p \<noteq> None"
  by (cases p) (simp_all add: resolve_def)

lemma resolve_settled [simp]: "\<exists>y. resolve v p = Some y"
  by (cases p) (simp_all add: resolve_def)







lemma probe_loop_Cons:
  "deliver_probe W cmds pc p s = (started, p1, s1) \<Longrightarrow>
   probe_loop W cmds (pc # q) p s = probe_loop W cmds (q @ started) p1 s1"
  by (simp add: probe_loop.simps)



lemma deliver_probe_progress:
  "deliver_probe W cmds pc p s = (started, p1, s1) \<Longrightarrow> started \<noteq> [] \<or> p1 \<noteq> None"
proof -
  assume d: "deliver_probe W cmds pc p s = (started, p1, s1)"
  have c: "\<And>i p s q' p' s'. checkNext W cmds i p s = (q', p', s') \<Longrightarrow> q' \<noteq> [] \<or> p' \<noteq> None"
    by (auto simp: checkNext_def Let_def split: if_splits prod.splits)
  obtain i r where pc: "pc = (i, r)" by (cases pc)
  show ?thesis
  proof (cases r)
    case (Close code err)
    with d pc c show ?thesis
      by (auto simp: on_probe_close_def split: if_splits)
  next
    case (ErrorEvent msg)
    with d pc c show ?thesis
      by (auto simp: on_probe_close_def on_probe_error_def split: if_splits prod.splits)
  qed
qed

lemma probe_loop_settled:
  "q \<noteq> [] \<or> p \<noteq> None \<Longrightarrow> fst (probe_loop W cmds q p s) \<noteq> None"
proof (induction W cmds q p s rule: probe_loop.induct)
  case (1 W cmds p s)
  then show ?case by (simp add: probe_loop.simps)
next
  case (2 W cmds pc q p s)
  obtain started p1 s1 where d: "deliver_probe W cmds pc p s = (started, p1, s1)"
    by (cases "deliver_probe W cmds pc p s")
  from deliver_probe_progress[OF d] have "q @ started \<noteq> [] \<or> p1 \<noteq> None" by auto
  from "2.IH"[OF d[symmetric] refl this] show ?case
    by (simp add: probe_loop_Cons[OF d])
qed

lemma probe_candidates_settled:
  "checkNext W cmds 0 None s = (started, p, s1) \<Longrightarrow> fst (probe_loop W cmds started p s1) \<noteq> None"
proof -
  assume c: "checkNext W cmds 0 None s = (started, p, s1)"
  then have "started \<noteq> [] \<or> p \<noteq> None"
    by (auto simp: checkNext_def Let_def split: if_splits prod.splits)
  then show ?thesis by (rule probe_loop_settled)
qed














subsection \<open>The install loop\<close>

lemma installLoop_resolved:
  "install_resolved (child_result W (clock s) (install_call W m)) \<Longrightarrow>
   installLoop W (m # ms) s =
     (True,
      printStatus (''Dependencies installed successfully using '' @ name m @ ''!'') Success
        (start (install_call W m) (printStatus (''Trying '' @ name m @ ''...'') Info s)))"
  by (simp add: spawn_def)

lemma installLoop_rejected:
  "\<not> install_resolved (child_result W (clock s) (install_call W m)) \<Longrightarrow>
   installLoop W (m # ms) s =
     installLoop W ms
       (printStatus
          (name m @ '' failed: ''
             @ install_error_message m (child_result W (clock s) (install_call W m)))
          Warning
          (start (install_call W m) (printStatus (''Trying '' @ name m @ ''...'') Info s)))"
  by (simp add: spawn_def)

lemma installLoop_first_resolved:
  "j < length ms \<Longrightarrow> install_resolved (attempt W (clock s) ms j) \<Longrightarrow>
   \<forall>i<j. \<not> install_resolved (attempt W (clock s) ms i) \<Longrightarrow>
   \<exists>s'. installLoop W ms s =
          (True,
           printStatus (''Dependencies installed successfully using '' @ name (ms ! j) @ ''!'')
             Success s')
        \<and> clock s' = clock s + Suc j
        \<and> spawn_calls (trace s') = spawn_calls (trace s) @ map (install_call W) (take (Suc j) ms)"
proof (induction ms arbitrary: s j)
  case Nil
  then show ?case by simp
next
  case (Cons m ms)
  show ?case
  proof (cases j)
    case 0
    with Cons.prems have "install_resolved (child_result W (clock s) (install_call W m))"
      by (simp add: attempt_def)
    from installLoop_resolved[OF this] 0 show ?thesis
      by (auto simp: spawn_calls_append)
  next
    case (Suc j')
    with Cons.prems have rej: "\<not> install_resolved (child_result W (clock s) (install_call W m))"
      by (auto simp: attempt_def dest: spec[of _ 0])
    let ?s1 = "printStatus
          (name m @ '' failed: ''
             @ install_error_message m (child_result W (clock s) (install_call W m)))
          Warning
          (start (install_call W m) (printStatus (''Trying '' @ name m @ ''...'') Info s))"
    have c: "clock ?s1 = Suc (clock s)" by simp
    have j': "j' < length ms" using Cons.prems Suc by simp
    have ok: "install_resolved (attempt W (clock ?s1) ms j')"
      using Cons.prems(2) Suc by (simp add: attempt_def)
    have before: "\<forall>i<j'. \<not> install_resolved (attempt W (clock ?s1) ms i)"
    proof (intro allI impI)
      fix i assume "i < j'"
      then have "Suc i < j" using Suc by simp
      with Cons.prems(3) have "\<not> install_resolved (attempt W (clock s) (m # ms) (Suc i))" by blast
      then show "\<not> install_resolved (attempt W (clock ?s1) ms i)" by (simp add: attempt_def)
    qed
    from Cons.IH[OF j' ok before] obtain s' where
      s': "installLoop W ms ?s1 =
             (True, printStatus (''Dependencies installed successfully using '' @ name (ms ! j') @ ''!'')
                Success s')"
          "clock s' = clock ?s1 + Suc j'"
          "spawn_calls (trace s') = spawn_calls (trace ?s1) @ map (install_call W) (take (Suc j') ms)"
      by blast
    show ?thesis
      using installLoop_rejected[OF rej, of ms] s' Suc
      by (auto simp: spawn_calls_append)
  qed
qed

lemma installLoop_all_rejected:
  "\<forall>i<length ms. \<not> install_resolved (attempt W (clock s) ms i) \<Longrightarrow>
   \<exists>s'. installLoop W ms s = (False, s')
        \<and> clock s' = clock s + length ms
        \<and> spawn_calls (trace s') = spawn_calls (trace s) @ map (install_call W) ms"
proof (induction ms arbitrary: s)
  case Nil
  then show ?case by simp
next
  case (Cons m ms)
  from Cons.prems have rej: "\<not> install_resolved (child_result W (clock s) (install_call W m))"
    by (auto simp: attempt_def dest: spec[of _ 0])
  let ?s1 = "printStatus
        (name m @ '' failed: ''
           @ install_error_message m (child_result W (clock s) (install_call W m)))
        Warning
        (start (install_call W m) (printStatus (''Trying '' @ name m @ ''...'') Info s))"
  have rest: "\<forall>i<length ms. \<not> install_resolved (attempt W (clock ?s1) ms i)"
  proof (intro allI impI)
    fix i assume "i < length ms"
    then have "Suc i < length (m # ms)" by simp
    with Cons.prems have "\<not> install_resolved (attempt W (clock s) (m # ms) (Suc i))" by blast
    then show "\<not> install_resolved (attempt W (clock ?s1) ms i)" by (simp add: attempt_def)
  qed
  from Cons.IH[OF rest] obtain s' where
    "installLoop W ms ?s1 = (False, s')" "clock s' = clock ?s1 + length ms"
    "spawn_calls (trace s') = spawn_calls (trace ?s1) @ map (install_call W) ms"
    by blast
  then show ?case
    using installLoop_rejected[OF rej, of ms] by (auto simp: spawn_calls_append)
qed

lemma installLoop_trace_extends:
  "\<exists>rest. trace (snd (installLoop W ms s)) = trace s @ rest"
proof (induction ms arbitrary: s)
  case Nil
  then show ?case by simp
next
  case (Cons m ms)
  show ?case
  proof (cases "install_resolved (child_result W (clock s) (install_call W m))")
    case True
    from installLoop_resolved[OF this] show ?thesis by simp
  next
    case False
    let ?s1 = "printStatus
        (name m @ '' failed: ''
           @ install_error_message m (child_result W (clock s) (install_call W m)))
        Warning
        (start (install_call W m) (printStatus (''Trying '' @ name m @ ''...'') Info s))"
    from Cons.IH[of ?s1] obtain rest where "trace (snd (installLoop W ms ?s1)) = trace ?s1 @ rest"
      by blast
    with installLoop_rejected[OF False, of ms] show ?thesis by simp
  qed
qed

lemma installLoop_first_spawn:
  "\<exists>rest. trace (snd (installLoop W (m # ms) s)) =
      trace s @ [Print Info (''Trying '' @ name m @ ''...''), Spawn (install_call W m)] @ rest"
proof (cases "install_resolved (child_result W (clock s) (install_call W m))")
  case True
  from installLoop_resolved[OF this] show ?thesis by simp
next
  case False
  let ?s1 = "printStatus
      (name m @ '' failed: ''
         @ install_error_message m (child_result W (clock s) (install_call W m)))
      Warning
      (start (install_call W m) (printStatus (''Trying '' @ name m @ ''...'') Info s))"
  from installLoop_trace_extends[of W ms ?s1] obtain rest
    where "trace (snd (installLoop W ms ?s1)) = trace ?s1 @ rest" by blast
  with installLoop_rejected[OF False, of ms] show ?thesis by simp
qed

lemma installPythonDependencies_with_requirements:
  "fs_existsSync W (clock s) (requirementsPath W) \<Longrightarrow>
   installPythonDependencies W pythonCmd s =
     (case install_start W pythonCmd s of
        (finalPythonCmd, s2) \<Rightarrow>
          (case installLoop W (installMethods W pythonCmd finalPythonCmd) s2 of
             (returned, s3) \<Rightarrow> if returned then s3 else allFailed s3))"
  by (simp add: installPythonDependencies_def install_start_def Let_def split: prod.splits)

lemma length_installMethods [simp]: "length (installMethods W p f) = 4"
  by (simp add: installMethods_def)

subsection \<open>C1: the cascade stops at the first success\<close>

text \<open>
  C1. The install methods are tried in the fixed order virtual environment, user install
  with break-system-packages, user install, system install with break-system-packages.
  When \<open>requirements.txt\<close> exists, method \<open>k\<close> fails and method \<open>k + 1\<close> succeeds, then
  \<open>installPythonDependencies\<close> returns right after the success report of the first method
  \<open>j\<close> that succeeds, \<open>j\<close> is at most \<open>k + 1\<close>, and the install processes started are
  exactly those of the methods up to \<open>j\<close>: method \<open>k + 2\<close> is not started.
\<close>

theorem install_cascade_stops_at_first_success:
  assumes req: "fs_existsSync W (clock s) (requirementsPath W)"
    and st: "install_start W pythonCmd s = (finalPythonCmd, s2)"
    and ms: "ms = installMethods W pythonCmd finalPythonCmd"
    and k: "k + 1 < length ms"
    and fail_k: "\<not> install_resolved (attempt W (clock s2) ms k)"
    and ok_k1: "install_resolved (attempt W (clock s2) ms (k + 1))"
  shows "map name ms =
           [''virtual environment'', ''user install with break-system-packages'',
            ''user install'', ''system install with break-system-packages'']
       \<and> (\<exists>j s3. j \<le> k + 1
             \<and> install_resolved (attempt W (clock s2) ms j)
             \<and> (\<forall>i<j. \<not> install_resolved (attempt W (clock s2) ms i))
             \<and> installPythonDependencies W pythonCmd s =
                 printStatus (''Dependencies installed successfully using '' @ name (ms ! j) @ ''!'')
                   Success s3
             \<and> clock s3 = clock s2 + Suc j
             \<and> spawn_calls (trace s3) =
                 spawn_calls (trace s2) @ map (install_call W) (take (Suc j) ms))"
proof
  show "map name ms =
           [''virtual environment'', ''user install with break-system-packages'',
            ''user install'', ''system install with break-system-packages'']"
    by (simp add: ms installMethods_def)
next
  define j where "j = (LEAST i. install_resolved (attempt W (clock s2) ms i))"
  have okj: "install_resolved (attempt W (clock s2) ms j)"
    unfolding j_def using ok_k1 by (rule LeastI)
  have jle: "j \<le> k + 1"
    unfolding j_def using ok_k1 by (rule Least_le)
  have before: "\<forall>i<j. \<not> install_resolved (attempt W (clock s2) ms i)"
    unfolding j_def using not_less_Least by blast
  have jlen: "j < length ms" using jle k by simp
  from installLoop_first_resolved[OF jlen okj before] obtain s3 where
    s3: "installLoop W ms s2 =
           (True, printStatus (''Dependencies installed successfully using '' @ name (ms ! j) @ ''!'')
                    Success s3)"
        "clock s3 = clock s2 + Suc j"
        "spawn_calls (trace s3) = spawn_calls (trace s2) @ map (install_call W) (take (Suc j) ms)"
    by blast
  have "installPythonDependencies W pythonCmd s =
          printStatus (''Dependencies installed successfully using '' @ name (ms ! j) @ ''!'')
            Success s3"
    using installPythonDependencies_with_requirements[OF req, of pythonCmd] st s3(1) ms
    by simp
  with jle okj before s3(2,3)
  show "\<exists>j s3. j \<le> k + 1
             \<and> install_resolved (attempt W (clock s2) ms j)
             \<and> (\<forall>i<j. \<not> install_resolved (attempt W (clock s2) ms i))
             \<and> installPythonDependencies W pythonCmd s =
                 printStatus (''Dependencies installed successfully using '' @ name (ms ! j) @ ''!'')
                   Success s3
             \<and> clock s3 = clock s2 + Suc j
             \<and> spawn_calls (trace s3) =
                 spawn_calls (trace s2) @ map (install_call W) (take (Suc j) ms)"
    by blast
qed

theorem install_cascade_stops_at_first_success_witness:
  "fs_existsSync second_method_world (clock init) (requirementsPath second_method_world)
   \<and> install_start second_method_world ''python3'' init =
        (''/pkg/.venv/bin/python3'',
         \<lparr>clock = 0,
          trace = [Print Info ''Installing Python dependencies...'',
                   Print Success ''Virtual environment already exists'',
                   Print Info ''Using virtual environment for dependency installation'']\<rparr>)
   \<and> \<not> install_resolved (attempt second_method_world 0
            (installMethods second_method_world ''python3'' ''/pkg/.venv/bin/python3'') 0)
   \<and> install_resolved (attempt second_method_world 0
          (installMethods second_method_world ''python3'' ''/pkg/.venv/bin/python3'') 1)
   \<and> (\<exists>j s3. j \<le> 1
         \<and> installPythonDependencies second_method_world ''python3'' init =
               printStatus
                 (''Dependencies installed successfully using ''
                    @ name (installMethods second_method_world ''python3''
                              ''/pkg/.venv/bin/python3'' ! j) @ ''!'')
                 Success s3
         \<and> clock s3 = Suc j)"
proof -
  let ?W = second_method_world
  let ?s2 = "\<lparr>clock = 0,
          trace = [Print Info ''Installing Python dependencies...'',
                   Print Success ''Virtual environment already exists'',
                   Print Info ''Using virtual environment for dependency installation'']\<rparr>"
  let ?ms = "installMethods ?W ''python3'' ''/pkg/.venv/bin/python3''"
  have req: "fs_existsSync ?W (clock init) (requirementsPath ?W)"
    by (simp add: example_defs)
  have st: "install_start ?W ''python3'' init = (''/pkg/.venv/bin/python3'', ?s2)"
    by (simp add: example_defs install_start_def createVirtualEnv_def selectInstallPython_def
          printStatus_def)
  have k: "0 + 1 < length ?ms" by simp
  have fail0: "\<not> install_resolved (attempt ?W (clock ?s2) ?ms 0)"
    by (simp add: example_defs attempt_def installMethods_def)
  have ok1: "install_resolved (attempt ?W (clock ?s2) ?ms (0 + 1))"
    by (simp add: example_defs attempt_def installMethods_def)
  from install_cascade_stops_at_first_success[OF req st refl k fail0 ok1]
  have "\<exists>j s3. j \<le> 1
         \<and> installPythonDependencies ?W ''python3'' init =
               printStatus (''Dependencies installed successfully using '' @ name (?ms ! j) @ ''!'')
                 Success s3
         \<and> clock s3 = Suc j"
    by auto
  with req st fail0 ok1 show ?thesis by simp
qed

lemma all_less_4: "(\<forall>k<(4::nat). P k) \<longleftrightarrow> P 0 \<and> P 1 \<and> P 2 \<and> P 3"
proof -
  have "\<And>k::nat. k < 4 \<longleftrightarrow> k = 0 \<or> k = 1 \<or> k = 2 \<or> k = 3" by arith
  then show ?thesis by auto
qed

subsection \<open>C2: when an attempt fails, and what happens when all fail\<close>

lemma spec_attempt_failed_iff: "spec_attempt_failed r \<longleftrightarrow> \<not> install_resolved r"
  by (cases r) (simp_all add: spec_attempt_failed_def already_satisfied_marker_def)

lemma last_trace_allFailed:
  "last (trace (allFailed s)) = Print Warning ''Continuing anyway - some features may not work.''"
  by (simp add: allFailed_def)

lemma clock_allFailed [simp]: "clock (allFailed s) = clock s"
  by (simp add: allFailed_def)

lemma spawn_calls_allFailed [simp]: "spawn_calls (trace (allFailed s)) = spawn_calls (trace s)"
  by (simp add: allFailed_def spawn_calls_append)

lemma setupPython_returns:
  "fst (checkPython W (printStatus ''Setting up ToolHive MCP Server...'' Info s)) \<noteq> None
   \<Longrightarrow> fst (setupPython W s) = Inr ()"
  by (auto simp: setupPython_def Let_def split: prod.splits option.splits proc_result.splits)

text \<open>
  C2. An install attempt is rejected, and the loop goes on with the remaining methods,
  exactly when the child did not exit with code zero and its stderr holds neither
  marker (\<open>already satisfied\<close>, \<open>Requirement already satisfied\<close>); otherwise the loop
  returns with the success report. A child that delivered \<open>error\<close> counts as one without
  a zero exit code and without stderr text. When all four methods fail,
  \<open>installPythonDependencies\<close> returns the state after the four attempts followed by the
  closing messages, the last of which is the warning \<open>Continuing anyway\<close>; and
  \<open>setupPython\<close> returns normally whenever an interpreter was found, whatever the
  install methods did.
\<close>

theorem install_failure_advances_and_exhaustion_warns:
  "(spec_attempt_failed r \<longleftrightarrow> \<not> install_resolved r)
   \<and> (spec_attempt_failed (child_result W (clock s) (install_call W m)) \<longrightarrow>
        installLoop W (m # ms) s =
          installLoop W ms
            (printStatus
               (name m @ '' failed: ''
                  @ install_error_message m (child_result W (clock s) (install_call W m)))
               Warning
               (start (install_call W m) (printStatus (''Trying '' @ name m @ ''...'') Info s))))
   \<and> (\<not> spec_attempt_failed (child_result W (clock s) (install_call W m)) \<longrightarrow>
        installLoop W (m # ms) s =
          (True,
           printStatus (''Dependencies installed successfully using '' @ name m @ ''!'') Success
             (start (install_call W m) (printStatus (''Trying '' @ name m @ ''...'') Info s))))
   \<and> (fs_existsSync W (clock s0) (requirementsPath W)
        \<and> install_start W pythonCmd s0 = (finalPythonCmd, s2)
        \<and> (\<forall>k<4. spec_attempt_failed
                     (attempt W (clock s2) (installMethods W pythonCmd finalPythonCmd) k))
        \<longrightarrow> (\<exists>s3. installPythonDependencies W pythonCmd s0 = allFailed s3
                  \<and> clock s3 = clock s2 + 4
                  \<and> spawn_calls (trace s3) =
                      spawn_calls (trace s2)
                        @ map (install_call W) (installMethods W pythonCmd finalPythonCmd)
                  \<and> last (trace (installPythonDependencies W pythonCmd s0)) =
                      Print Warning ''Continuing anyway - some features may not work.''))
   \<and> (fst (checkPython W (printStatus ''Setting up ToolHive MCP Server...'' Info s')) \<noteq> None
        \<longrightarrow> fst (setupPython W s') = Inr ())"
proof (intro conjI impI)
  show "spec_attempt_failed r \<longleftrightarrow> \<not> install_resolved r"
    by (rule spec_attempt_failed_iff)
next
  assume "spec_attempt_failed (child_result W (clock s) (install_call W m))"
  then have "\<not> install_resolved (child_result W (clock s) (install_call W m))"
    by (simp add: spec_attempt_failed_iff)
  then show "installLoop W (m # ms) s =
          installLoop W ms
            (printStatus
               (name m @ '' failed: ''
                  @ install_error_message m (child_result W (clock s) (install_call W m)))
               Warning
               (start (install_call W m) (printStatus (''Trying '' @ name m @ ''...'') Info s)))"
    by (rule installLoop_rejected)
next
  assume "\<not> spec_attempt_failed (child_result W (clock s) (install_call W m))"
  then have "install_resolved (child_result W (clock s) (install_call W m))"
    by (simp add: spec_attempt_failed_iff)
  then show "installLoop W (m # ms) s =
          (True,
           printStatus (''Dependencies installed successfully using '' @ name m @ ''!'') Success
             (start (install_call W m) (printStatus (''Trying '' @ name m @ ''...'') Info s)))"
    by (rule installLoop_resolved)
next
  let ?ms = "installMethods W pythonCmd finalPythonCmd"
  assume h: "fs_existsSync W (clock s0) (requirementsPath W)
        \<and> install_start W pythonCmd s0 = (finalPythonCmd, s2)
        \<and> (\<forall>k<4. spec_attempt_failed (attempt W (clock s2) ?ms k))"
  then have "\<forall>i<length ?ms. \<not> install_resolved (attempt W (clock s2) ?ms i)"
    by (simp add: spec_attempt_failed_iff)
  from installLoop_all_rejected[OF this] obtain s3 where
    s3: "installLoop W ?ms s2 = (False, s3)" "clock s3 = clock s2 + length ?ms"
        "spawn_calls (trace s3) = spawn_calls (trace s2) @ map (install_call W) ?ms"
    by blast
  have eq: "installPythonDependencies W pythonCmd s0 = allFailed s3"
    using installPythonDependencies_with_requirements[of W s0 pythonCmd] h s3(1) by simp
  show "\<exists>s3. installPythonDependencies W pythonCmd s0 = allFailed s3
                  \<and> clock s3 = clock s2 + 4
                  \<and> spawn_calls (trace s3) = spawn_calls (trace s2) @ map (install_call W) ?ms
                  \<and> last (trace (installPythonDependencies W pythonCmd s0)) =
                      Print Warning ''Continuing anyway - some features may not work.''"
    using eq s3(2,3) last_trace_allFailed[of s3] by auto
next
  assume "fst (checkPython W (printStatus ''Setting up ToolHive MCP Server...'' Info s')) \<noteq> None"
  then show "fst (setupPython W s') = Inr ()"
    by (rule setupPython_returns)
qed

theorem install_failure_advances_and_exhaustion_warns_witness:
  "spec_attempt_failed (Close (Some 1) ''error: externally-managed-environment'')
   \<and> \<not> spec_attempt_failed (Close (Some 1) ''Requirement already satisfied: requests'')
   \<and> fst (installLoop exhausted_world
             [hd (installMethods exhausted_world ''python3'' ''python3'')]
             \<lparr>clock = 2, trace = []\<rparr>) = False
   \<and> fst (installLoop second_method_world
             [hd (installMethods second_method_world ''python3'' ''python3'')]
             \<lparr>clock = 1, trace = []\<rparr>) = True
   \<and> (\<exists>s3. installPythonDependencies exhausted_world ''python3'' \<lparr>clock = 1, trace = []\<rparr>
               = allFailed s3
           \<and> clock s3 = 6)
   \<and> last (trace (installPythonDependencies exhausted_world ''python3'' \<lparr>clock = 1, trace = []\<rparr>))
        = Print Warning ''Continuing anyway - some features may not work.''
   \<and> fst (setupPython exhausted_world init) = Inr ()"
proof -
  let ?W = exhausted_world
  let ?V = second_method_world
  let ?m = "hd (installMethods ?W ''python3'' ''python3'')"
  let ?n = "hd (installMethods ?V ''python3'' ''python3'')"
  let ?sA = "\<lparr>clock = 2, trace = []\<rparr>"
  let ?sB = "\<lparr>clock = 1, trace = []\<rparr>"
  let ?s2 = "\<lparr>clock = 2,
             trace = [Print Info ''Installing Python dependencies...'',
                      Print Info ''Creating virtual environment...'',
                      Spawn (venv_call ?W ''python3''),
                      Print Error ''Failed to create virtual environment: Failed to create virtual environment: 1'']\<rparr>"
  note T = install_failure_advances_and_exhaustion_warns
  have r1: "spec_attempt_failed (Close (Some 1) ''error: externally-managed-environment'')"
    using T[of "Close (Some 1) ''error: externally-managed-environment''", THEN conjunct1]
    by simp
  have r2: "\<not> spec_attempt_failed (Close (Some 1) ''Requirement already satisfied: requests'')"
    using T[of "Close (Some 1) ''Requirement already satisfied: requests''", THEN conjunct1]
    by simp
  have f1: "spec_attempt_failed (child_result ?W (clock ?sA) (install_call ?W ?m))"
    by (simp add: example_defs exhausted_world_def spec_attempt_failed_def
          already_satisfied_marker_def)
  have l1: "fst (installLoop ?W [?m] ?sA) = False"
    using T[of _ ?W ?sA ?m "[]", THEN conjunct2, THEN conjunct1, THEN mp, OF f1] by simp
  have f2: "\<not> spec_attempt_failed (child_result ?V (clock ?sB) (install_call ?V ?n))"
    by (simp add: example_defs spec_attempt_failed_def)
  have l2: "fst (installLoop ?V [?n] ?sB) = True"
    using T[of _ ?V ?sB ?n "[]", THEN conjunct2, THEN conjunct2, THEN conjunct1, THEN mp, OF f2]
    by simp
  have st3: "install_start ?W ''python3'' ?sB = (''python3'', ?s2)"
    by (simp add: example_defs exhausted_world_def install_start_def createVirtualEnv_def
          selectInstallPython_def printStatus_def spawn_def start_def venv_call_def
          string_of_code_def digit_char_def)
  have fail3: "\<forall>k<4. spec_attempt_failed
                     (attempt ?W 2 (installMethods ?W ''python3'' ''python3'') k)"
    by (simp add: all_less_4 example_defs exhausted_world_def attempt_def installMethods_def
          spec_attempt_failed_def already_satisfied_marker_def)
  have req3: "fs_existsSync ?W (clock ?sB) (requirementsPath ?W)"
    by (simp add: example_defs exhausted_world_def)
  have h3: "fs_existsSync ?W (clock ?sB) (requirementsPath ?W)
        \<and> install_start ?W ''python3'' ?sB = (''python3'', ?s2)
        \<and> (\<forall>k<4. spec_attempt_failed
                     (attempt ?W (clock ?s2) (installMethods ?W ''python3'' ''python3'') k))"
    using req3 st3 fail3 by simp
  have e3: "\<exists>s3. installPythonDependencies ?W ''python3'' ?sB = allFailed s3
                  \<and> clock s3 = clock ?s2 + 4
                  \<and> spawn_calls (trace s3) =
                      spawn_calls (trace ?s2)
                        @ map (install_call ?W) (installMethods ?W ''python3'' ''python3'')
                  \<and> last (trace (installPythonDependencies ?W ''python3'' ?sB)) =
                      Print Warning ''Continuing anyway - some features may not work.''"
    using T[of _ ?W _ _ _ ?sB "''python3''" "''python3''" ?s2,
            THEN conjunct2, THEN conjunct2, THEN conjunct2, THEN conjunct1, THEN mp, OF h3] .
  have h4: "fst (checkPython ?W (printStatus ''Setting up ToolHive MCP Server...'' Info init)) \<noteq> None"
    by (simp add: checkPython_eval example_defs exhausted_world_def printStatus_def)
  have e4: "fst (setupPython ?W init) = Inr ()"
    using T[of _ ?W _ _ _ _ _ _ _ init,
            THEN conjunct2, THEN conjunct2, THEN conjunct2, THEN conjunct2, THEN mp, OF h4] .
  from e3 have "\<exists>s3. installPythonDependencies ?W ''python3'' ?sB = allFailed s3 \<and> clock s3 = 6"
    by auto
  with r1 r2 l1 l2 e3 e4 show ?thesis by blast
qed

subsection \<open>C4: an existing virtual environment is left alone\<close>

text \<open>
  C4. When the directory \<open>.venv\<close> under the package directory exists,
  \<open>createVirtualEnv\<close> starts no process, prints \<open>Virtual environment already exists\<close>
  as a success and returns \<open>true\<close>; calling it again in the resulting state does the
  same again.
\<close>

theorem createVirtualEnv_existing_is_noop:
  assumes "fs_existsSync W (clock s) (path_join W [packageDir W, ''.venv''])"
  shows "createVirtualEnv W pythonCmd s =
           (True, printStatus ''Virtual environment already exists'' Success s)
       \<and> clock (snd (createVirtualEnv W pythonCmd s)) = clock s
       \<and> spawn_calls (trace (snd (createVirtualEnv W pythonCmd s))) = spawn_calls (trace s)
       \<and> createVirtualEnv W pythonCmd (snd (createVirtualEnv W pythonCmd s)) =
           (True,
            printStatus ''Virtual environment already exists'' Success
              (printStatus ''Virtual environment already exists'' Success s))"
  using assms by (simp add: createVirtualEnv_def venvPath_def spawn_calls_append)

theorem createVirtualEnv_existing_is_noop_witness:
  "fs_existsSync second_method_world (clock init)
     (path_join second_method_world [packageDir second_method_world, ''.venv''])
   \<and> createVirtualEnv second_method_world ''python3'' init =
        (True, \<lparr>clock = 0, trace = [Print Success ''Virtual environment already exists'']\<rparr>)
   \<and> spawn_calls (trace (snd (createVirtualEnv second_method_world ''python3'' init))) = []"
proof -
  have h: "fs_existsSync second_method_world (clock init)
     (path_join second_method_world [packageDir second_method_world, ''.venv''])"
    by (simp add: example_defs)
  from createVirtualEnv_existing_is_noop[OF h, of "''python3''"] h
  show ?thesis by (simp add: init_def printStatus_def)
qed

subsection \<open>C9: no requirements.txt\<close>

lemma setupPython_found:
  "checkPython W (printStatus ''Setting up ToolHive MCP Server...'' Info s) = (Some pythonCmd, s1)
   \<Longrightarrow> setupPython W s =
     (let s3 = installPythonDependencies W pythonCmd
                 (printStatus (''Found Python: '' @ pythonCmd) Success s1)
      in if fs_existsSync W (clock s3) (path_join W [packageDir W, ''setup.py''])
            \<and> \<not> fs_existsSync W (clock s3) (venvPath W)
         then
           (Inr (),
            case child_result W (clock s3) (setup_py_call W pythonCmd) of
              Close code err \<Rightarrow>
                printStatus
                  (if code = Some 0 then ''Additional setup completed successfully!''
                   else ''Additional setup had issues, but continuing...'')
                  (if code = Some 0 then Success else Warning)
                  (start (setup_py_call W pythonCmd)
                     (printStatus ''Running additional setup...'' Info s3))
            | ErrorEvent msg \<Rightarrow>
                printStatus ''Additional setup had issues, but continuing...'' Warning
                  (printStatus (''Setup warning: '' @ msg) Warning
                     (start (setup_py_call W pythonCmd)
                        (printStatus ''Running additional setup...'' Info s3))))
         else (Inr (), s3))"
  by (simp add: setupPython_def Let_def spawn_def split: proc_result.splits)

text \<open>
  C9. When \<open>requirements.txt\<close> does not exist in the package directory,
  \<open>installPythonDependencies\<close> prints its opening line and the warning
  \<open>No requirements.txt found\<close> and returns: no process is started, so no virtual
  environment is created and no install method is tried. \<open>setupPython\<close> then returns
  normally; the only process it may still start is the additional \<open>setup.py\<close> run of its
  own last step. With \<open>--setup-only\<close>, \<open>main\<close> returns normally as well.
\<close>

theorem no_requirements_skips_installation:
  "(\<not> fs_existsSync W (clock s) (path_join W [packageDir W, ''requirements.txt'']) \<longrightarrow>
       installPythonDependencies W pythonCmd s =
         printStatus ''No requirements.txt found, skipping dependency installation'' Warning
           (printStatus ''Installing Python dependencies...'' Info s)
     \<and> clock (installPythonDependencies W pythonCmd s) = clock s
     \<and> spawn_calls (trace (installPythonDependencies W pythonCmd s)) = spawn_calls (trace s))
   \<and> (checkPython W (printStatus ''Setting up ToolHive MCP Server...'' Info s0)
          = (Some pythonCmd, s1)
       \<and> \<not> fs_existsSync W (clock s1) (path_join W [packageDir W, ''requirements.txt'']) \<longrightarrow>
       fst (setupPython W s0) = Inr ()
     \<and> fst (main W [''--setup-only''] s0) = Inr ()
     \<and> spawn_calls (trace (snd (setupPython W s0))) =
         spawn_calls (trace s1)
           @ (if fs_existsSync W (clock s1) (path_join W [packageDir W, ''setup.py''])
                 \<and> \<not> fs_existsSync W (clock s1) (venvPath W)
              then [setup_py_call W pythonCmd] else []))"
proof (intro conjI impI)
  assume h: "\<not> fs_existsSync W (clock s) (path_join W [packageDir W, ''requirements.txt''])"
  then show eq: "installPythonDependencies W pythonCmd s =
         printStatus ''No requirements.txt found, skipping dependency installation'' Warning
           (printStatus ''Installing Python dependencies...'' Info s)"
    by (simp add: installPythonDependencies_def requirementsPath_def)
  show "clock (installPythonDependencies W pythonCmd s) = clock s"
    by (simp add: eq)
  show "spawn_calls (trace (installPythonDependencies W pythonCmd s)) = spawn_calls (trace s)"
    by (simp add: eq spawn_calls_append)
next
  assume h: "checkPython W (printStatus ''Setting up ToolHive MCP Server...'' Info s0)
          = (Some pythonCmd, s1)
       \<and> \<not> fs_existsSync W (clock s1) (path_join W [packageDir W, ''requirements.txt''])"
  define s3 where
    "s3 = installPythonDependencies W pythonCmd
            (printStatus (''Found Python: '' @ pythonCmd) Success s1)"
  have s3: "s3 = printStatus ''No requirements.txt found, skipping dependency installation''
                    Warning
                    (printStatus ''Installing Python dependencies...'' Info
                       (printStatus (''Found Python: '' @ pythonCmd) Success s1))"
    unfolding s3_def using h by (simp add: installPythonDependencies_def requirementsPath_def)
  have c3: "clock s3 = clock s1" by (simp add: s3)
  have t3: "spawn_calls (trace s3) = spawn_calls (trace s1)"
    by (simp add: s3 spawn_calls_append)
  note sp = setupPython_found[OF conjunct1[OF h], folded s3_def]
  show r: "fst (setupPython W s0) = Inr ()"
    by (simp add: sp Let_def)
  show "fst (main W [''--setup-only''] s0) = Inr ()"
    using r by (cases "setupPython W s0") (auto simp: main_def split: sum.splits)
  show "spawn_calls (trace (snd (setupPython W s0))) =
         spawn_calls (trace s1)
           @ (if fs_existsSync W (clock s1) (path_join W [packageDir W, ''setup.py''])
                 \<and> \<not> fs_existsSync W (clock s1) (venvPath W)
              then [setup_py_call W pythonCmd] else [])"
    unfolding sp Let_def c3
    by (auto simp: t3 spawn_calls_append split: proc_result.splits)
qed

theorem no_requirements_skips_installation_witness:
  "\<not> fs_existsSync bare_world (clock init)
        (path_join bare_world [packageDir bare_world, ''requirements.txt''])
   \<and> installPythonDependencies bare_world ''python3'' init =
        \<lparr>clock = 0,
         trace = [Print Info ''Installing Python dependencies...'',
                  Print Warning ''No requirements.txt found, skipping dependency installation'']\<rparr>
   \<and> checkPython bare_world (printStatus ''Setting up ToolHive MCP Server...'' Info init) =
        (Some ''python3'',
         \<lparr>clock = 1,
          trace = [Print Info ''Setting up ToolHive MCP Server...'',
                   Spawn (version_call ''python3'')]\<rparr>)
   \<and> fst (setupPython bare_world init) = Inr ()
   \<and> fst (main bare_world [''--setup-only''] init) = Inr ()
   \<and> spawn_calls (trace (snd (setupPython bare_world init))) =
        [version_call ''python3'', setup_py_call bare_world ''python3'']"
proof -
  let ?W = bare_world
  let ?s1 = "\<lparr>clock = 1,
          trace = [Print Info ''Setting up ToolHive MCP Server...'',
                   Spawn (version_call ''python3'')]\<rparr>"
  note T = no_requirements_skips_installation
  have h1: "\<not> fs_existsSync ?W (clock init) (path_join ?W [packageDir ?W, ''requirements.txt''])"
    by (simp add: example_defs bare_world_def)
  have cp: "checkPython ?W (printStatus ''Setting up ToolHive MCP Server...'' Info init)
              = (Some ''python3'', ?s1)"
    by (simp add: checkPython_eval start_def example_defs bare_world_def printStatus_def)
  have h2: "checkPython ?W (printStatus ''Setting up ToolHive MCP Server...'' Info init)
              = (Some ''python3'', ?s1)
       \<and> \<not> fs_existsSync ?W (clock ?s1) (path_join ?W [packageDir ?W, ''requirements.txt''])"
    using cp by (simp add: example_defs bare_world_def)
  have e1: "installPythonDependencies ?W ''python3'' init =
         printStatus ''No requirements.txt found, skipping dependency installation'' Warning
           (printStatus ''Installing Python dependencies...'' Info init)"
    using T[of ?W init "''python3''", THEN conjunct1, THEN mp, OF h1] by blast
  have e2: "fst (setupPython ?W init) = Inr ()
     \<and> fst (main ?W [''--setup-only''] init) = Inr ()
     \<and> spawn_calls (trace (snd (setupPython ?W init))) =
         spawn_calls (trace ?s1)
           @ (if fs_existsSync ?W (clock ?s1) (path_join ?W [packageDir ?W, ''setup.py''])
                 \<and> \<not> fs_existsSync ?W (clock ?s1) (venvPath ?W)
              then [setup_py_call ?W ''python3''] else [])"
    using T[of ?W _ "''python3''" init ?s1, THEN conjunct2, THEN mp, OF h2] .
  have files: "fs_existsSync ?W (clock ?s1) (path_join ?W [packageDir ?W, ''setup.py''])
                 \<and> \<not> fs_existsSync ?W (clock ?s1) (venvPath ?W)"
    by (simp add: example_defs bare_world_def)
  have e3: "spawn_calls (trace (snd (setupPython ?W init))) =
        [version_call ''python3'', setup_py_call ?W ''python3'']"
    using e2 files by simp
  have e1': "installPythonDependencies ?W ''python3'' init =
        \<lparr>clock = 0,
         trace = [Print Info ''Installing Python dependencies...'',
                  Print Warning ''No requirements.txt found, skipping dependency installation'']\<rparr>"
    using e1 by (simp add: printStatus_def init_def)
  from h1 e1' cp e2 e3 show ?thesis by blast
qed

subsection \<open>C5: the virtual environment cannot be created\<close>

lemma installLoop_spawn_prefix:
  assumes "ms \<noteq> []"
  shows "\<exists>n. 1 \<le> n \<and> n \<le> length ms
           \<and> spawn_calls (trace (snd (installLoop W ms s))) =
               spawn_calls (trace s) @ map (install_call W) (take n ms)"
proof (cases "\<exists>j<length ms. install_resolved (attempt W (clock s) ms j)")
  case True
  define j where "j = (LEAST i. i < length ms \<and> install_resolved (attempt W (clock s) ms i))"
  from True have ex: "\<exists>i. i < length ms \<and> install_resolved (attempt W (clock s) ms i)"
    by blast
  have j: "j < length ms \<and> install_resolved (attempt W (clock s) ms j)"
    unfolding j_def using ex by (rule LeastI_ex)
  have before: "\<forall>i<j. \<not> install_resolved (attempt W (clock s) ms i)"
  proof (intro allI impI)
    fix i assume i: "i < j"
    then have "\<not> (i < length ms \<and> install_resolved (attempt W (clock s) ms i))"
      unfolding j_def by (rule not_less_Least)
    with i j show "\<not> install_resolved (attempt W (clock s) ms i)" by simp
  qed
  from installLoop_first_resolved[OF conjunct1[OF j] conjunct2[OF j] before]
  obtain s' where "installLoop W ms s =
          (True, printStatus (''Dependencies installed successfully using '' @ name (ms ! j) @ ''!'')
                   Success s')"
    "spawn_calls (trace s') = spawn_calls (trace s) @ map (install_call W) (take (Suc j) ms)"
    by blast
  then have "spawn_calls (trace (snd (installLoop W ms s))) =
               spawn_calls (trace s) @ map (install_call W) (take (Suc j) ms)"
    by (simp add: spawn_calls_append)
  with j show ?thesis by (intro exI[of _ "Suc j"]) simp
next
  case False
  then have "\<forall>i<length ms. \<not> install_resolved (attempt W (clock s) ms i)" by blast
  from installLoop_all_rejected[OF this] obtain s' where
    "installLoop W ms s = (False, s')"
    "spawn_calls (trace s') = spawn_calls (trace s) @ map (install_call W) ms"
    by blast
  then have "spawn_calls (trace (snd (installLoop W ms s))) =
               spawn_calls (trace s) @ map (install_call W) (take (length ms) ms)"
    by simp
  with assms show ?thesis by (intro exI[of _ "length ms"]) (cases ms, simp_all)
qed

lemma createVirtualEnv_failed:
  assumes "\<not> fs_existsSync W (clock s) (venvPath W)"
    and "\<not> exits_zero (child_result W (clock s) (venv_call W pythonCmd))"
  shows "\<exists>msg. createVirtualEnv W pythonCmd s =
           (False,
            printStatus (''Failed to create virtual environment: '' @ msg) Error
              (start (venv_call W pythonCmd)
                 (printStatus ''Creating virtual environment...'' Info s)))"
proof (cases "child_result W (clock s) (venv_call W pythonCmd)")
  case (Close code err)
  with assms show ?thesis
    by (intro exI[of _ "''Failed to create virtual environment: '' @ string_of_code code"])
       (simp add: createVirtualEnv_def spawn_def)
next
  case (ErrorEvent msg)
  with assms show ?thesis
    by (intro exI[of _ msg]) (simp add: createVirtualEnv_def spawn_def)
qed

text \<open>
  C5. When \<open>requirements.txt\<close> exists, \<open>.venv\<close> does not, and the process that creates the
  virtual environment does not exit with code zero, the failure is printed as an error
  and \<open>installPythonDependencies\<close> goes on with the install loop. The processes it starts
  are \<open>pythonCmd -m venv .venv\<close> followed by the first \<open>n\<close> of the four install commands,
  with \<open>n\<close> at least one and at most four: \<open>pythonCmd -m pip install -r requirements.txt\<close>,
  then the same with \<open>--user --break-system-packages\<close>, with \<open>--user\<close>, and with
  \<open>--break-system-packages\<close>. Every one of them has the interpreter that was passed in
  as its command; the interpreter inside \<open>.venv\<close> is not used.
\<close>

theorem venv_failure_falls_back_to_ambient_python:
  assumes req: "fs_existsSync W (clock s) (requirementsPath W)"
    and novenv: "\<not> fs_existsSync W (clock s) (venvPath W)"
    and fail: "\<not> exits_zero (child_result W (clock s) (venv_call W pythonCmd))"
  shows "\<exists>msg s2 n.
           s2 = printStatus (''Failed to create virtual environment: '' @ msg) Error
                  (start (venv_call W pythonCmd)
                     (printStatus ''Creating virtual environment...'' Info
                        (printStatus ''Installing Python dependencies...'' Info s)))
         \<and> install_start W pythonCmd s = (pythonCmd, s2)
         \<and> installPythonDependencies W pythonCmd s =
             (case installLoop W (installMethods W pythonCmd pythonCmd) s2 of
                (returned, s3) \<Rightarrow> if returned then s3 else allFailed s3)
         \<and> (\<forall>m \<in> set (installMethods W pythonCmd pythonCmd). cmd m = pythonCmd)
         \<and> 1 \<le> n \<and> n \<le> 4
         \<and> spawn_calls (trace (installPythonDependencies W pythonCmd s)) =
             spawn_calls (trace s) @ venv_call W pythonCmd
               # map (install_call W) (take n (installMethods W pythonCmd pythonCmd))
         \<and> spawn_calls (trace (installPythonDependencies W pythonCmd s)) =
             spawn_calls (trace s)
               @ \<lparr>command = pythonCmd, arguments = [''-m'', ''venv'', ''.venv''],
                  cwd = Some (packageDir W), stdio_opt = Pipe, env_opt = None\<rparr>
               # take n
                   [\<lparr>command = pythonCmd,
                     arguments = [''-m'', ''pip'', ''install'', ''-r'', requirementsPath W],
                     cwd = Some (packageDir W), stdio_opt = IgnorePipePipe, env_opt = None\<rparr>,
                    \<lparr>command = pythonCmd,
                     arguments = [''-m'', ''pip'', ''install'', ''--user'',
                                  ''--break-system-packages'', ''-r'', requirementsPath W],
                     cwd = Some (packageDir W), stdio_opt = IgnorePipePipe, env_opt = None\<rparr>,
                    \<lparr>command = pythonCmd,
                     arguments = [''-m'', ''pip'', ''install'', ''--user'', ''-r'',
                                  requirementsPath W],
                     cwd = Some (packageDir W), stdio_opt = IgnorePipePipe, env_opt = None\<rparr>,
                    \<lparr>command = pythonCmd,
                     arguments = [''-m'', ''pip'', ''install'', ''--break-system-packages'',
                                  ''-r'', requirementsPath W],
                     cwd = Some (packageDir W), stdio_opt = IgnorePipePipe, env_opt = None\<rparr>]
         \<and> length (spawn_calls (trace (installPythonDependencies W pythonCmd s))) =
             length (spawn_calls (trace s)) + 1 + n
         \<and> (\<forall>c \<in> set (drop (length (spawn_calls (trace s)))
                          (spawn_calls (trace (installPythonDependencies W pythonCmd s)))).
               command c = pythonCmd)"
proof -
  let ?s0 = "printStatus ''Installing Python dependencies...'' Info s"
  let ?ms = "installMethods W pythonCmd pythonCmd"
  let ?calls = "[\<lparr>command = pythonCmd,
                     arguments = [''-m'', ''pip'', ''install'', ''-r'', requirementsPath W],
                     cwd = Some (packageDir W), stdio_opt = IgnorePipePipe, env_opt = None\<rparr>,
                    \<lparr>command = pythonCmd,
                     arguments = [''-m'', ''pip'', ''install'', ''--user'',
                                  ''--break-system-packages'', ''-r'', requirementsPath W],
                     cwd = Some (packageDir W), stdio_opt = IgnorePipePipe, env_opt = None\<rparr>,
                    \<lparr>command = pythonCmd,
                     arguments = [''-m'', ''pip'', ''install'', ''--user'', ''-r'',
                                  requirementsPath W],
                     cwd = Some (packageDir W), stdio_opt = IgnorePipePipe, env_opt = None\<rparr>,
                    \<lparr>command = pythonCmd,
                     arguments = [''-m'', ''pip'', ''install'', ''--break-system-packages'',
                                  ''-r'', requirementsPath W],
                     cwd = Some (packageDir W), stdio_opt = IgnorePipePipe, env_opt = None\<rparr>]"
  let ?venv = "\<lparr>command = pythonCmd, arguments = [''-m'', ''venv'', ''.venv''],
                  cwd = Some (packageDir W), stdio_opt = Pipe, env_opt = None\<rparr>"
  from createVirtualEnv_failed[of W ?s0 pythonCmd] novenv fail
  obtain msg where cv: "createVirtualEnv W pythonCmd ?s0 =
           (False,
            printStatus (''Failed to create virtual environment: '' @ msg) Error
              (start (venv_call W pythonCmd)
                 (printStatus ''Creating virtual environment...'' Info ?s0)))"
    by auto
  define s2 where "s2 = printStatus (''Failed to create virtual environment: '' @ msg) Error
              (start (venv_call W pythonCmd)
                 (printStatus ''Creating virtual environment...'' Info ?s0))"
  have st: "install_start W pythonCmd s = (pythonCmd, s2)"
    by (simp add: install_start_def cv selectInstallPython_def s2_def)
  have ipd: "installPythonDependencies W pythonCmd s =
             (case installLoop W ?ms s2 of (returned, s3) \<Rightarrow> if returned then s3 else allFailed s3)"
    using installPythonDependencies_with_requirements[OF req, of pythonCmd] st by simp
  have cmds: "\<forall>m \<in> set ?ms. cmd m = pythonCmd"
    by (simp add: installMethods_def)
  have "?ms \<noteq> []" by (simp add: installMethods_def)
  from installLoop_spawn_prefix[OF this, of W s2] obtain n where
    n: "1 \<le> n" "n \<le> length ?ms"
       "spawn_calls (trace (snd (installLoop W ?ms s2))) =
          spawn_calls (trace s2) @ map (install_call W) (take n ?ms)"
    by blast
  have t2: "spawn_calls (trace s2) = spawn_calls (trace s) @ [venv_call W pythonCmd]"
    by (simp add: s2_def spawn_calls_append)
  have "spawn_calls (trace (installPythonDependencies W pythonCmd s)) =
          spawn_calls (trace (snd (installLoop W ?ms s2)))"
    unfolding ipd by (cases "installLoop W ?ms s2") simp
  with n(3) t2 have sp: "spawn_calls (trace (installPythonDependencies W pythonCmd s)) =
             spawn_calls (trace s) @ venv_call W pythonCmd # map (install_call W) (take n ?ms)"
    by simp
  from n(2) have n4: "n \<le> 4" by simp
  have all: "map (install_call W) ?ms = ?calls"
    by (simp add: installMethods_def install_call_def)
  have tk: "map (install_call W) (take n ?ms) = take n ?calls"
    unfolding all[symmetric] by (simp add: take_map)
  have venv: "venv_call W pythonCmd = ?venv"
    by (simp add: venv_call_def)
  have sp': "spawn_calls (trace (installPythonDependencies W pythonCmd s)) =
               spawn_calls (trace s) @ ?venv # take n ?calls"
    using sp unfolding tk venv .
  have len: "length (spawn_calls (trace (installPythonDependencies W pythonCmd s))) =
               length (spawn_calls (trace s)) + 1 + n"
    unfolding sp' using n4 by simp
  have "\<forall>c \<in> set (?venv # take n ?calls). command c = pythonCmd"
    by (auto dest!: in_set_takeD)
  then have every: "\<forall>c \<in> set (drop (length (spawn_calls (trace s)))
                          (spawn_calls (trace (installPythonDependencies W pythonCmd s)))).
               command c = pythonCmd"
    unfolding sp' by simp
  show ?thesis
    using s2_def st ipd cmds n(1) n4 sp sp' len every by blast
qed

theorem venv_failure_falls_back_to_ambient_python_witness:
  "fs_existsSync exhausted_world 1 (requirementsPath exhausted_world)
   \<and> \<not> fs_existsSync exhausted_world 1 (venvPath exhausted_world)
   \<and> \<not> exits_zero (child_result exhausted_world 1 (venv_call exhausted_world ''python3''))
   \<and> (\<exists>s2. install_start exhausted_world ''python3'' \<lparr>clock = 1, trace = []\<rparr>
              = (''python3'', s2))
   \<and> (\<exists>n. 1 \<le> n \<and> n \<le> 4
          \<and> spawn_calls
               (trace (installPythonDependencies exhausted_world ''python3''
                         \<lparr>clock = 1, trace = []\<rparr>)) =
              venv_call exhausted_world ''python3''
                # map (install_call exhausted_world)
                    (take n (installMethods exhausted_world ''python3'' ''python3''))
          \<and> spawn_calls
               (trace (installPythonDependencies exhausted_world ''python3''
                         \<lparr>clock = 1, trace = []\<rparr>)) =
              \<lparr>command = ''python3'', arguments = [''-m'', ''venv'', ''.venv''],
               cwd = Some ''/pkg'', stdio_opt = Pipe, env_opt = None\<rparr>
              # take n
                  [\<lparr>command = ''python3'',
                    arguments = [''-m'', ''pip'', ''install'', ''-r'', ''/pkg/requirements.txt''],
                    cwd = Some ''/pkg'', stdio_opt = IgnorePipePipe, env_opt = None\<rparr>,
                   \<lparr>command = ''python3'',
                    arguments = [''-m'', ''pip'', ''install'', ''--user'',
                                 ''--break-system-packages'', ''-r'', ''/pkg/requirements.txt''],
                    cwd = Some ''/pkg'', stdio_opt = IgnorePipePipe, env_opt = None\<rparr>,
                   \<lparr>command = ''python3'',
                    arguments = [''-m'', ''pip'', ''install'', ''--user'', ''-r'',
                                 ''/pkg/requirements.txt''],
                    cwd = Some ''/pkg'', stdio_opt = IgnorePipePipe, env_opt = None\<rparr>,
                   \<lparr>command = ''python3'',
                    arguments = [''-m'', ''pip'', ''install'', ''--break-system-packages'',
                                 ''-r'', ''/pkg/requirements.txt''],
                    cwd = Some ''/pkg'', stdio_opt = IgnorePipePipe, env_opt = None\<rparr>])
   \<and> set (map command
              (spawn_calls
                 (trace (installPythonDependencies exhausted_world ''python3''
                           \<lparr>clock = 1, trace = []\<rparr>)))) = {''python3''}"
proof -
  let ?W = exhausted_world
  let ?s = "\<lparr>clock = 1, trace = []\<rparr>"
  have req: "fs_existsSync ?W (clock ?s) (requirementsPath ?W)"
    by (simp add: example_defs exhausted_world_def)
  have novenv: "\<not> fs_existsSync ?W (clock ?s) (venvPath ?W)"
    by (simp add: example_defs exhausted_world_def)
  have fail: "\<not> exits_zero (child_result ?W (clock ?s) (venv_call ?W ''python3''))"
    by (simp add: example_defs exhausted_world_def)
  have paths: "requirementsPath ?W = ''/pkg/requirements.txt''" "packageDir ?W = ''/pkg''"
    by (simp_all add: example_defs exhausted_world_def)
  note T = venv_failure_falls_back_to_ambient_python[OF req novenv fail]
  from T obtain msg s2 n where
    a: "install_start ?W ''python3'' ?s = (''python3'', s2)"
    and b: "1 \<le> n" "n \<le> 4"
    and c: "spawn_calls (trace (installPythonDependencies ?W ''python3'' ?s)) =
       spawn_calls (trace ?s) @ venv_call ?W ''python3''
         # map (install_call ?W) (take n (installMethods ?W ''python3'' ''python3''))"
    and d: "spawn_calls (trace (installPythonDependencies ?W ''python3'' ?s)) =
             spawn_calls (trace ?s)
               @ \<lparr>command = ''python3'', arguments = [''-m'', ''venv'', ''.venv''],
                  cwd = Some (packageDir ?W), stdio_opt = Pipe, env_opt = None\<rparr>
               # take n
                   [\<lparr>command = ''python3'',
                     arguments = [''-m'', ''pip'', ''install'', ''-r'', requirementsPath ?W],
                     cwd = Some (packageDir ?W), stdio_opt = IgnorePipePipe, env_opt = None\<rparr>,
                    \<lparr>command = ''python3'',
                     arguments = [''-m'', ''pip'', ''install'', ''--user'',
                                  ''--break-system-packages'', ''-r'', requirementsPath ?W],
                     cwd = Some (packageDir ?W), stdio_opt = IgnorePipePipe, env_opt = None\<rparr>,
                    \<lparr>command = ''python3'',
                     arguments = [''-m'', ''pip'', ''install'', ''--user'', ''-r'',
                                  requirementsPath ?W],
                     cwd = Some (packageDir ?W), stdio_opt = IgnorePipePipe, env_opt = None\<rparr>,
                    \<lparr>command = ''python3'',
                     arguments = [''-m'', ''pip'', ''install'', ''--break-system-packages'',
                                  ''-r'', requirementsPath ?W],
                     cwd = Some (packageDir ?W), stdio_opt = IgnorePipePipe, env_opt = None\<rparr>]"
    and e: "\<forall>c \<in> set (drop (length (spawn_calls (trace ?s)))
                          (spawn_calls (trace (installPythonDependencies ?W ''python3'' ?s)))).
               command c = ''python3''"
    by blast
  from c have c': "spawn_calls (trace (installPythonDependencies ?W ''python3'' ?s)) =
       venv_call ?W ''python3''
         # map (install_call ?W) (take n (installMethods ?W ''python3'' ''python3''))"
    by simp
  from d have d': "spawn_calls (trace (installPythonDependencies ?W ''python3'' ?s)) =
              \<lparr>command = ''python3'', arguments = [''-m'', ''venv'', ''.venv''],
               cwd = Some ''/pkg'', stdio_opt = Pipe, env_opt = None\<rparr>
              # take n
                  [\<lparr>command = ''python3'',
                    arguments = [''-m'', ''pip'', ''install'', ''-r'', ''/pkg/requirements.txt''],
                    cwd = Some ''/pkg'', stdio_opt = IgnorePipePipe, env_opt = None\<rparr>,
                   \<lparr>command = ''python3'',
                    arguments = [''-m'', ''pip'', ''install'', ''--user'',
                                 ''--break-system-packages'', ''-r'', ''/pkg/requirements.txt''],
                    cwd = Some ''/pkg'', stdio_opt = IgnorePipePipe, env_opt = None\<rparr>,
                   \<lparr>command = ''python3'',
                    arguments = [''-m'', ''pip'', ''install'', ''--user'', ''-r'',
                                 ''/pkg/requirements.txt''],
                    cwd = Some ''/pkg'', stdio_opt = IgnorePipePipe, env_opt = None\<rparr>,
                   \<lparr>command = ''python3'',
                    arguments = [''-m'', ''pip'', ''install'', ''--break-system-packages'',
                                 ''-r'', ''/pkg/requirements.txt''],
                    cwd = Some ''/pkg'', stdio_opt = IgnorePipePipe, env_opt = None\<rparr>]"
    unfolding paths by simp
  from e have "\<forall>c \<in> set (spawn_calls (trace (installPythonDependencies ?W ''python3'' ?s))).
         command c = ''python3''"
    by simp
  moreover have "spawn_calls (trace (installPythonDependencies ?W ''python3'' ?s)) \<noteq> []"
    using c by simp
  ultimately have e': "set (map command
              (spawn_calls (trace (installPythonDependencies ?W ''python3'' ?s)))) = {''python3''}"
    by (cases "spawn_calls (trace (installPythonDependencies ?W ''python3'' ?s))") auto
  from a have a': "\<exists>s2. install_start ?W ''python3'' ?s = (''python3'', s2)" by blast
  from b c' d' have f: "\<exists>n. 1 \<le> n \<and> n \<le> 4
          \<and> spawn_calls (trace (installPythonDependencies ?W ''python3'' ?s)) =
              venv_call ?W ''python3''
                # map (install_call ?W) (take n (installMethods ?W ''python3'' ''python3''))
          \<and> spawn_calls (trace (installPythonDependencies ?W ''python3'' ?s)) =
              \<lparr>command = ''python3'', arguments = [''-m'', ''venv'', ''.venv''],
               cwd = Some ''/pkg'', stdio_opt = Pipe, env_opt = None\<rparr>
              # take n
                  [\<lparr>command = ''python3'',
                    arguments = [''-m'', ''pip'', ''install'', ''-r'', ''/pkg/requirements.txt''],
                    cwd = Some ''/pkg'', stdio_opt = IgnorePipePipe, env_opt = None\<rparr>,
                   \<lparr>command = ''python3'',
                    arguments = [''-m'', ''pip'', ''install'', ''--user'',
                                 ''--break-system-packages'', ''-r'', ''/pkg/requirements.txt''],
                    cwd = Some ''/pkg'', stdio_opt = IgnorePipePipe, env_opt = None\<rparr>,
                   \<lparr>command = ''python3'',
                    arguments = [''-m'', ''pip'', ''install'', ''--user'', ''-r'',
                                 ''/pkg/requirements.txt''],
                    cwd = Some ''/pkg'', stdio_opt = IgnorePipePipe, env_opt = None\<rparr>,
                   \<lparr>command = ''python3'',
                    arguments = [''-m'', ''pip'', ''install'', ''--break-system-packages'',
                                 ''-r'', ''/pkg/requirements.txt''],
                    cwd = Some ''/pkg'', stdio_opt = IgnorePipePipe, env_opt = None\<rparr>]"
    by blast
  have req1: "fs_existsSync ?W 1 (requirementsPath ?W)" using req by simp
  have novenv1: "\<not> fs_existsSync ?W 1 (venvPath ?W)" using novenv by simp
  have fail1: "\<not> exits_zero (child_result ?W 1 (venv_call ?W ''python3''))" using fail by simp
  from req1 novenv1 fail1 a' f e' show ?thesis by (intro conjI)
qed

subsection \<open>C10: the interpreter of the first install method\<close>

lemma installPythonDependencies_trace_first:
  assumes req: "fs_existsSync W (clock s) (requirementsPath W)"
    and st: "install_start W pythonCmd s = (finalPythonCmd, s2)"
  shows "\<exists>rest. trace (installPythonDependencies W pythonCmd s) =
           trace s2 @ [Print Info ''Trying virtual environment...'',
                       Spawn \<lparr>command = finalPythonCmd,
                              arguments = [''-m'', ''pip'', ''install'', ''-r'', requirementsPath W],
                              cwd = Some (packageDir W), stdio_opt = IgnorePipePipe,
                              env_opt = None\<rparr>] @ rest"
proof -
  let ?m = "\<lparr>name = ''virtual environment'', cmd = finalPythonCmd,
            args = [''-m'', ''pip'', ''install'', ''-r'', requirementsPath W]\<rparr>"
  obtain ms where ms: "installMethods W pythonCmd finalPythonCmd = ?m # ms"
    by (simp add: installMethods_def)
  from installLoop_first_spawn[of W ?m ms s2] obtain rest where
    r: "trace (snd (installLoop W (?m # ms) s2)) =
          trace s2 @ [Print Info (''Trying '' @ name ?m @ ''...''), Spawn (install_call W ?m)] @ rest"
    by blast
  obtain returned s3 where l: "installLoop W (?m # ms) s2 = (returned, s3)"
    by (cases "installLoop W (?m # ms) s2")
  have ipd: "installPythonDependencies W pythonCmd s = (if returned then s3 else allFailed s3)"
    using installPythonDependencies_with_requirements[OF req, of pythonCmd] st ms l by simp
  show ?thesis
  proof (cases returned)
    case True
    with ipd r l show ?thesis by (simp add: install_call_def)
  next
    case False
    with ipd r l show ?thesis by (simp add: install_call_def allFailed_def)
  qed
qed

text \<open>
  C10. The interpreter of the first install method is the interpreter inside \<open>.venv\<close>
  (\<open>.venv/Scripts/python.exe\<close> on \<open>win32\<close>, \<open>.venv/bin/python3\<close> elsewhere) exactly
  when \<open>createVirtualEnv\<close> returned \<open>true\<close> and that file exists, and the interpreter
  that was passed in otherwise. When \<open>createVirtualEnv\<close> returned \<open>true\<close> and the file
  is absent, nothing is printed about it: the next events after \<open>createVirtualEnv\<close> are
  the line \<open>Trying virtual environment...\<close> and the start of
  \<open>pythonCmd -m pip install -r requirements.txt\<close>, without \<open>--user\<close> and without
  \<open>--break-system-packages\<close>. When the file is present, the line
  \<open>Using virtual environment for dependency installation\<close> is printed and the same
  arguments are run with the interpreter inside \<open>.venv\<close>.
\<close>

theorem first_method_interpreter:
  "venvPythonPath W =
     (if process_platform W = ''win32''
      then path_join W [packageDir W, ''.venv'', ''Scripts'', ''python.exe'']
      else path_join W [packageDir W, ''.venv'', ''bin'', ''python3''])
   \<and> fst (selectInstallPython W pythonCmd venvCreated s') =
        (if venvCreated \<and> fs_existsSync W (clock s') (venvPythonPath W)
         then venvPythonPath W else pythonCmd)
   \<and> (fs_existsSync W (clock s) (requirementsPath W)
        \<and> createVirtualEnv W pythonCmd (printStatus ''Installing Python dependencies...'' Info s)
             = (True, s1)
        \<and> \<not> fs_existsSync W (clock s1) (venvPythonPath W)
        \<longrightarrow> (\<exists>rest. trace (installPythonDependencies W pythonCmd s) =
               trace s1
                 @ [Print Info ''Trying virtual environment...'',
                    Spawn \<lparr>command = pythonCmd,
                           arguments = [''-m'', ''pip'', ''install'', ''-r'', requirementsPath W],
                           cwd = Some (packageDir W), stdio_opt = IgnorePipePipe,
                           env_opt = None\<rparr>]
                 @ rest))
   \<and> (fs_existsSync W (clock s) (requirementsPath W)
        \<and> createVirtualEnv W pythonCmd (printStatus ''Installing Python dependencies...'' Info s)
             = (True, s1)
        \<and> fs_existsSync W (clock s1) (venvPythonPath W)
        \<longrightarrow> (\<exists>rest. trace (installPythonDependencies W pythonCmd s) =
               trace s1
                 @ [Print Info ''Using virtual environment for dependency installation'',
                    Print Info ''Trying virtual environment...'',
                    Spawn \<lparr>command = venvPythonPath W,
                           arguments = [''-m'', ''pip'', ''install'', ''-r'', requirementsPath W],
                           cwd = Some (packageDir W), stdio_opt = IgnorePipePipe,
                           env_opt = None\<rparr>]
                 @ rest))"
proof (intro conjI impI)
  show "venvPythonPath W =
     (if process_platform W = ''win32''
      then path_join W [packageDir W, ''.venv'', ''Scripts'', ''python.exe'']
      else path_join W [packageDir W, ''.venv'', ''bin'', ''python3''])"
    by (simp add: venvPythonPath_def)
next
  show "fst (selectInstallPython W pythonCmd venvCreated s') =
        (if venvCreated \<and> fs_existsSync W (clock s') (venvPythonPath W)
         then venvPythonPath W else pythonCmd)"
    by (simp add: selectInstallPython_def)
next
  assume h: "fs_existsSync W (clock s) (requirementsPath W)
        \<and> createVirtualEnv W pythonCmd (printStatus ''Installing Python dependencies...'' Info s)
             = (True, s1)
        \<and> \<not> fs_existsSync W (clock s1) (venvPythonPath W)"
  then have st: "install_start W pythonCmd s = (pythonCmd, s1)"
    by (simp add: install_start_def selectInstallPython_def)
  from installPythonDependencies_trace_first[OF conjunct1[OF h] st]
  show "\<exists>rest. trace (installPythonDependencies W pythonCmd s) =
               trace s1
                 @ [Print Info ''Trying virtual environment...'',
                    Spawn \<lparr>command = pythonCmd,
                           arguments = [''-m'', ''pip'', ''install'', ''-r'', requirementsPath W],
                           cwd = Some (packageDir W), stdio_opt = IgnorePipePipe,
                           env_opt = None\<rparr>]
                 @ rest" .
next
  assume h: "fs_existsSync W (clock s) (requirementsPath W)
        \<and> createVirtualEnv W pythonCmd (printStatus ''Installing Python dependencies...'' Info s)
             = (True, s1)
        \<and> fs_existsSync W (clock s1) (venvPythonPath W)"
  then have st: "install_start W pythonCmd s =
      (venvPythonPath W,
       printStatus ''Using virtual environment for dependency installation'' Info s1)"
    by (simp add: install_start_def selectInstallPython_def)
  from installPythonDependencies_trace_first[OF conjunct1[OF h] st]
  show "\<exists>rest. trace (installPythonDependencies W pythonCmd s) =
               trace s1
                 @ [Print Info ''Using virtual environment for dependency installation'',
                    Print Info ''Trying virtual environment...'',
                    Spawn \<lparr>command = venvPythonPath W,
                           arguments = [''-m'', ''pip'', ''install'', ''-r'', requirementsPath W],
                           cwd = Some (packageDir W), stdio_opt = IgnorePipePipe,
                           env_opt = None\<rparr>]
                 @ rest"
    by simp
qed

theorem first_method_interpreter_witness:
  "createVirtualEnv partial_venv_world ''python3''
      (printStatus ''Installing Python dependencies...'' Info init)
     = (True,
        \<lparr>clock = 0,
         trace = [Print Info ''Installing Python dependencies...'',
                  Print Success ''Virtual environment already exists'']\<rparr>)
   \<and> \<not> fs_existsSync partial_venv_world 0 ''/pkg/.venv/bin/python3''
   \<and> (\<exists>rest. trace (installPythonDependencies partial_venv_world ''python3'' init) =
          [Print Info ''Installing Python dependencies...'',
           Print Success ''Virtual environment already exists'',
           Print Info ''Trying virtual environment...'',
           Spawn \<lparr>command = ''python3'',
                  arguments = [''-m'', ''pip'', ''install'', ''-r'', ''/pkg/requirements.txt''],
                  cwd = Some ''/pkg'', stdio_opt = IgnorePipePipe, env_opt = None\<rparr>]
          @ rest)
   \<and> fs_existsSync second_method_world 0 ''/pkg/.venv/bin/python3''
   \<and> (\<exists>rest. trace (installPythonDependencies second_method_world ''python3'' init) =
          [Print Info ''Installing Python dependencies...'',
           Print Success ''Virtual environment already exists'',
           Print Info ''Using virtual environment for dependency installation'',
           Print Info ''Trying virtual environment...'',
           Spawn \<lparr>command = ''/pkg/.venv/bin/python3'',
                  arguments = [''-m'', ''pip'', ''install'', ''-r'', ''/pkg/requirements.txt''],
                  cwd = Some ''/pkg'', stdio_opt = IgnorePipePipe, env_opt = None\<rparr>]
          @ rest)"
proof -
  let ?P = partial_venv_world
  let ?V = second_method_world
  let ?s1 = "\<lparr>clock = 0,
         trace = [Print Info ''Installing Python dependencies...'',
                  Print Success ''Virtual environment already exists'']\<rparr>"
  note T = first_method_interpreter
  have pP: "venvPythonPath ?P = ''/pkg/.venv/bin/python3''" "requirementsPath ?P = ''/pkg/requirements.txt''"
      "packageDir ?P = ''/pkg''"
    by (simp_all add: example_defs partial_venv_world_def)
  have pV: "venvPythonPath ?V = ''/pkg/.venv/bin/python3''" "requirementsPath ?V = ''/pkg/requirements.txt''"
      "packageDir ?V = ''/pkg''"
    by (simp_all add: example_defs)
  have cP: "createVirtualEnv ?P ''python3'' (printStatus ''Installing Python dependencies...'' Info init)
     = (True, ?s1)"
    by (simp add: createVirtualEnv_def example_defs partial_venv_world_def printStatus_def)
  have cV: "createVirtualEnv ?V ''python3'' (printStatus ''Installing Python dependencies...'' Info init)
     = (True, ?s1)"
    by (simp add: createVirtualEnv_def example_defs printStatus_def)
  have nP: "\<not> fs_existsSync ?P 0 ''/pkg/.venv/bin/python3''"
    by (simp add: example_defs partial_venv_world_def)
  have yV: "fs_existsSync ?V 0 ''/pkg/.venv/bin/python3''"
    by (simp add: example_defs)
  have hP: "fs_existsSync ?P (clock init) (requirementsPath ?P)
        \<and> createVirtualEnv ?P ''python3'' (printStatus ''Installing Python dependencies...'' Info init)
             = (True, ?s1)
        \<and> \<not> fs_existsSync ?P (clock ?s1) (venvPythonPath ?P)"
    using cP nP by (simp add: pP) (simp add: example_defs partial_venv_world_def)
  have hV: "fs_existsSync ?V (clock init) (requirementsPath ?V)
        \<and> createVirtualEnv ?V ''python3'' (printStatus ''Installing Python dependencies...'' Info init)
             = (True, ?s1)
        \<and> fs_existsSync ?V (clock ?s1) (venvPythonPath ?V)"
    using cV yV by (simp add: pV) (simp add: example_defs)
  have eP: "\<exists>rest. trace (installPythonDependencies ?P ''python3'' init) =
               trace ?s1
                 @ [Print Info ''Trying virtual environment...'',
                    Spawn \<lparr>command = ''python3'',
                           arguments = [''-m'', ''pip'', ''install'', ''-r'', requirementsPath ?P],
                           cwd = Some (packageDir ?P), stdio_opt = IgnorePipePipe,
                           env_opt = None\<rparr>]
                 @ rest"
    using T[of ?P "''python3''" _ _ init ?s1, THEN conjunct2, THEN conjunct2, THEN conjunct1,
            THEN mp, OF hP] .
  have eV: "\<exists>rest. trace (installPythonDependencies ?V ''python3'' init) =
               trace ?s1
                 @ [Print Info ''Using virtual environment for dependency installation'',
                    Print Info ''Trying virtual environment...'',
                    Spawn \<lparr>command = venvPythonPath ?V,
                           arguments = [''-m'', ''pip'', ''install'', ''-r'', requirementsPath ?V],
                           cwd = Some (packageDir ?V), stdio_opt = IgnorePipePipe,
                           env_opt = None\<rparr>]
                 @ rest"
    using T[of ?V "''python3''" _ _ init ?s1, THEN conjunct2, THEN conjunct2, THEN conjunct2,
            THEN mp, OF hV] .
  from eP have eP': "\<exists>rest. trace (installPythonDependencies ?P ''python3'' init) =
          [Print Info ''Installing Python dependencies...'',
           Print Success ''Virtual environment already exists'',
           Print Info ''Trying virtual environment...'',
           Spawn \<lparr>command = ''python3'',
                  arguments = [''-m'', ''pip'', ''install'', ''-r'', ''/pkg/requirements.txt''],
                  cwd = Some ''/pkg'', stdio_opt = IgnorePipePipe, env_opt = None\<rparr>]
          @ rest"
    by (simp add: pP)
  from eV have eV': "\<exists>rest. trace (installPythonDependencies ?V ''python3'' init) =
          [Print Info ''Installing Python dependencies...'',
           Print Success ''Virtual environment already exists'',
           Print Info ''Using virtual environment for dependency installation'',
           Print Info ''Trying virtual environment...'',
           Spawn \<lparr>command = ''/pkg/.venv/bin/python3'',
                  arguments = [''-m'', ''pip'', ''install'', ''-r'', ''/pkg/requirements.txt''],
                  cwd = Some ''/pkg'', stdio_opt = IgnorePipePipe, env_opt = None\<rparr>]
          @ rest"
    by (simp add: pV)
  from cP nP eP' yV eV' show ?thesis by blast
qed

subsection \<open>C8: the process and the environment of the server\<close>

lemma map_of_server_env:
  "map_of (server_env W) =
     (map_of (process_env W))
       (''PYTHONPATH'' \<mapsto> packageDir W,
        ''PYTHONUSERBASE'' \<mapsto>
          (case map_of (process_env W) ''PYTHONUSERBASE'' of
             None \<Rightarrow> path_join W [os_homedir W, ''.local'']
           | Some v \<Rightarrow> if v = [] then path_join W [os_homedir W, ''.local''] else v))"
  by (simp add: server_env_def update_conv')

text \<open>
  C8. When an interpreter was found, \<open>runServer\<close> starts \<open>toolhive_server.py\<close> with
  the interpreter inside \<open>.venv\<close> if that file exists and with the interpreter found
  otherwise, in the package directory and with inherited standard streams. The
  environment of the server holds \<open>PYTHONPATH\<close> set to the package directory and
  \<open>PYTHONUSERBASE\<close> set to the inherited value when that is set and not empty and to
  \<open>.local\<close> under the home directory otherwise; every other variable has exactly the
  value it has in the environment of the launcher, and no other variable is added.
\<close>

theorem runServer_spawn_environment:
  assumes "checkPython W s = (Some pythonCmd, s1)"
  shows "runServer W s =
           (Inr (),
            start
              \<lparr>command = (if fs_existsSync W (clock s1) (venvPythonPath W)
                           then venvPythonPath W else pythonCmd),
               arguments = [path_join W [packageDir W, ''toolhive_server.py'']],
               cwd = Some (packageDir W), stdio_opt = Inherit,
               env_opt = Some (server_env W)\<rparr>
              (printStatus ''Starting ToolHive MCP Server...'' Info s1))
       \<and> map_of (server_env W) ''PYTHONPATH'' = Some (packageDir W)
       \<and> map_of (server_env W) ''PYTHONUSERBASE'' =
           Some (case map_of (process_env W) ''PYTHONUSERBASE'' of
                   None \<Rightarrow> path_join W [os_homedir W, ''.local'']
                 | Some v \<Rightarrow> if v = [] then path_join W [os_homedir W, ''.local''] else v)
       \<and> (\<forall>k. k \<noteq> ''PYTHONPATH'' \<and> k \<noteq> ''PYTHONUSERBASE''
              \<longrightarrow> map_of (server_env W) k = map_of (process_env W) k)
       \<and> fst ` set (server_env W) =
           fst ` set (process_env W) \<union> {''PYTHONPATH'', ''PYTHONUSERBASE''}"
proof (intro conjI allI impI)
  show "runServer W s =
           (Inr (),
            start
              \<lparr>command = (if fs_existsSync W (clock s1) (venvPythonPath W)
                           then venvPythonPath W else pythonCmd),
               arguments = [path_join W [packageDir W, ''toolhive_server.py'']],
               cwd = Some (packageDir W), stdio_opt = Inherit,
               env_opt = Some (server_env W)\<rparr>
              (printStatus ''Starting ToolHive MCP Server...'' Info s1))"
    using assms by (simp add: runServer_def server_call_def Let_def)
next
  show "map_of (server_env W) ''PYTHONPATH'' = Some (packageDir W)"
    by (simp add: map_of_server_env)
next
  show "map_of (server_env W) ''PYTHONUSERBASE'' =
           Some (case map_of (process_env W) ''PYTHONUSERBASE'' of
                   None \<Rightarrow> path_join W [os_homedir W, ''.local'']
                 | Some v \<Rightarrow> if v = [] then path_join W [os_homedir W, ''.local''] else v)"
    by (simp add: map_of_server_env)
next
  fix k :: string
  assume "k \<noteq> ''PYTHONPATH'' \<and> k \<noteq> ''PYTHONUSERBASE''"
  then show "map_of (server_env W) k = map_of (process_env W) k"
    by (simp add: map_of_server_env)
next
  show "fst ` set (server_env W) =
           fst ` set (process_env W) \<union> {''PYTHONPATH'', ''PYTHONUSERBASE''}"
    by (auto simp: server_env_def dom_update)
qed

theorem runServer_spawn_environment_witness:
  "checkPython second_method_world init =
     (Some ''python'',
      \<lparr>clock = 2, trace = [Spawn (version_call ''python3''), Spawn (version_call ''python'')]\<rparr>)
   \<and> runServer second_method_world init =
       (Inr (),
        \<lparr>clock = 3,
         trace = [Spawn (version_call ''python3''), Spawn (version_call ''python''),
                  Print Info ''Starting ToolHive MCP Server...'',
                  Spawn \<lparr>command = ''/pkg/.venv/bin/python3'',
                         arguments = [''/pkg/toolhive_server.py''],
                         cwd = Some ''/pkg'', stdio_opt = Inherit,
                         env_opt = Some [(''HOME'', ''/home/u''), (''PYTHONPATH'', ''/pkg''),
                                         (''PYTHONUSERBASE'', ''/home/u/.local'')]\<rparr>]\<rparr>)
   \<and> map_of (server_env second_method_world) ''HOME'' = Some ''/home/u''"
proof -
  let ?W = second_method_world
  let ?s1 = "\<lparr>clock = 2, trace = [Spawn (version_call ''python3''), Spawn (version_call ''python'')]\<rparr>"
  have cp: "checkPython ?W init = (Some ''python'', ?s1)"
    by (simp add: checkPython_eval start_def example_defs)
  note T = runServer_spawn_environment[OF cp]
  have env: "server_env ?W = [(''HOME'', ''/home/u''), (''PYTHONPATH'', ''/pkg''),
                                         (''PYTHONUSERBASE'', ''/home/u/.local'')]"
    by (simp add: server_env_def example_defs)
  have run: "runServer ?W init =
       (Inr (),
        \<lparr>clock = 3,
         trace = [Spawn (version_call ''python3''), Spawn (version_call ''python''),
                  Print Info ''Starting ToolHive MCP Server...'',
                  Spawn \<lparr>command = ''/pkg/.venv/bin/python3'',
                         arguments = [''/pkg/toolhive_server.py''],
                         cwd = Some ''/pkg'', stdio_opt = Inherit,
                         env_opt = Some [(''HOME'', ''/home/u''), (''PYTHONPATH'', ''/pkg''),
                                         (''PYTHONUSERBASE'', ''/home/u/.local'')]\<rparr>]\<rparr>)"
    using T[THEN conjunct1] unfolding env by (simp add: start_def printStatus_def example_defs)
  have home: "map_of (server_env ?W) ''HOME'' = Some ''/home/u''"
    using T[THEN conjunct2, THEN conjunct2, THEN conjunct2, THEN conjunct1, rule_format, of "''HOME''"]
    by (simp add: example_defs)
  from cp run home show ?thesis by blast
qed

subsection \<open>C6: SIGTERM\<close>

lemma deliver_all_append: "deliver_all (xs @ ys) L = deliver_all ys (deliver_all xs L)"
  by (induction xs arbitrary: L) simp_all

lemma deliver_ended_only_by_close:
  "ended (deliver e L) \<noteq> None \<Longrightarrow> ended L \<noteq> None \<or> (\<exists>code. e = ServerClose code)"
  by (cases e) (auto split: if_splits)

lemma deliver_all_ended_only_by_close:
  "ended (deliver_all evs L) \<noteq> None
   \<Longrightarrow> ended L \<noteq> None \<or> (\<exists>code. ServerClose code \<in> set evs)"
proof (induction evs arbitrary: L)
  case Nil
  then show ?case by simp
next
  case (Cons e evs)
  from Cons.prems have "ended (deliver_all evs (deliver e L)) \<noteq> None" by simp
  from Cons.IH[OF this] show ?case
  proof
    assume "ended (deliver e L) \<noteq> None"
    from deliver_ended_only_by_close[OF this] show ?thesis by auto
  next
    assume "\<exists>code. ServerClose code \<in> set evs"
    then show ?thesis by auto
  qed
qed

lemma deliver_all_running:
  "\<forall>code. ServerClose code \<notin> set evs \<Longrightarrow> ended L = None \<Longrightarrow> server_open L
   \<Longrightarrow> ended (deliver_all evs L) = None \<and> server_open (deliver_all evs L)"
proof (induction evs arbitrary: L)
  case Nil
  then show ?case by simp
next
  case (Cons e evs)
  then have e: "\<forall>code. e \<noteq> ServerClose code" and rest: "\<forall>code. ServerClose code \<notin> set evs"
    by auto
  from e Cons.prems(2,3) have "ended (deliver e L) = None" "server_open (deliver e L)"
    by (cases e; simp)+
  from Cons.IH[OF rest this] show ?case by simp
qed

lemma deliver_all_ended_closed:
  "ended L \<noteq> None \<longrightarrow> \<not> server_open L
   \<Longrightarrow> ended (deliver_all evs L) \<noteq> None \<longrightarrow> \<not> server_open (deliver_all evs L)"
proof (induction evs arbitrary: L)
  case Nil
  then show ?case by simp
next
  case (Cons e evs)
  have "ended (deliver e L) \<noteq> None \<longrightarrow> \<not> server_open (deliver e L)"
    using Cons.prems by (cases e) auto
  from Cons.IH[OF this] show ?case by simp
qed

text \<open>
  C6. After \<open>runServer\<close> has started the server, for every sequence of events: a
  \<open>SIGTERM\<close> that arrives while the server has not closed makes the launcher print
  \<open>Shutting down server...\<close> and send \<open>SIGTERM\<close> to the server, and leaves the launcher
  running with the server handle open; and the launcher has ended only if the server's
  \<open>close\<close> is among the events delivered, at which point the server handle is closed.
  No handler ends the launcher by itself.
\<close>

theorem sigterm_forwarded_and_launcher_waits:
  "((\<forall>code. ServerClose code \<notin> set pre) \<longrightarrow>
       prog (deliver_all (pre @ [Received SIGTERM]) (launched s)) =
         kill SIGTERM
           (printStatus ''Shutting down server...'' Info (prog (deliver_all pre (launched s))))
     \<and> ended (deliver_all (pre @ [Received SIGTERM]) (launched s)) = None
     \<and> server_open (deliver_all (pre @ [Received SIGTERM]) (launched s)))
   \<and> (ended (deliver_all evs (launched s)) \<noteq> None \<longrightarrow>
         (\<exists>code. ServerClose code \<in> set evs) \<and> \<not> server_open (deliver_all evs (launched s)))"
proof (intro conjI impI)
  assume pre: "\<forall>code. ServerClose code \<notin> set pre"
  have run: "ended (deliver_all pre (launched s)) = None \<and> server_open (deliver_all pre (launched s))"
    by (rule deliver_all_running[OF pre]) (simp_all add: launched_def)
  show "prog (deliver_all (pre @ [Received SIGTERM]) (launched s)) =
         kill SIGTERM
           (printStatus ''Shutting down server...'' Info (prog (deliver_all pre (launched s))))"
    using run by (simp add: deliver_all_append on_signal_def)
  show "ended (deliver_all (pre @ [Received SIGTERM]) (launched s)) = None"
    using run by (simp add: deliver_all_append)
  show "server_open (deliver_all (pre @ [Received SIGTERM]) (launched s))"
    using run by (simp add: deliver_all_append)
next
  assume e: "ended (deliver_all evs (launched s)) \<noteq> None"
  from deliver_all_ended_only_by_close[OF e]
  show "\<exists>code. ServerClose code \<in> set evs" by (simp add: launched_def)
  from deliver_all_ended_closed[of "launched s" evs] e
  show "\<not> server_open (deliver_all evs (launched s))" by (simp add: launched_def)
qed

theorem sigterm_forwarded_and_launcher_waits_witness:
  "prog (deliver_all [ServerError ''write EPIPE'', Received SIGTERM] (launched init)) =
     \<lparr>clock = 0,
      trace = [Print Error ''Server error: write EPIPE'',
               Print Info ''Shutting down server...'', Kill SIGTERM]\<rparr>
   \<and> ended (deliver_all [ServerError ''write EPIPE'', Received SIGTERM] (launched init)) = None
   \<and> ended (deliver_all [Received SIGTERM, ServerClose None] (launched init)) = Some 0
   \<and> \<not> server_open (deliver_all [Received SIGTERM, ServerClose None] (launched init))"
proof -
  note T = sigterm_forwarded_and_launcher_waits
  have h1: "\<forall>code. ServerClose code \<notin> set [ServerError ''write EPIPE'']" by simp
  have e1: "prog (deliver_all ([ServerError ''write EPIPE''] @ [Received SIGTERM]) (launched init)) =
         kill SIGTERM
           (printStatus ''Shutting down server...'' Info
              (prog (deliver_all [ServerError ''write EPIPE''] (launched init))))
     \<and> ended (deliver_all ([ServerError ''write EPIPE''] @ [Received SIGTERM]) (launched init)) = None
     \<and> server_open (deliver_all ([ServerError ''write EPIPE''] @ [Received SIGTERM]) (launched init))"
    using T[of "[ServerError ''write EPIPE'']" init, THEN conjunct1, THEN mp, OF h1] .
  have h2: "ended (deliver_all [Received SIGTERM, ServerClose None] (launched init)) \<noteq> None"
    by (simp add: launched_def)
  have e2: "\<not> server_open (deliver_all [Received SIGTERM, ServerClose None] (launched init))"
    using T[of _ init "[Received SIGTERM, ServerClose None]", THEN conjunct2, THEN mp, OF h2]
    by blast
  have v: "ended (deliver_all [Received SIGTERM, ServerClose None] (launched init)) = Some 0"
    by (simp add: launched_def)
  from e1 have "prog (deliver_all [ServerError ''write EPIPE'', Received SIGTERM] (launched init)) =
     \<lparr>clock = 0,
      trace = [Print Error ''Server error: write EPIPE'',
               Print Info ''Shutting down server...'', Kill SIGTERM]\<rparr>"
    by (simp add: launched_def init_def kill_def printStatus_def on_server_error_def)
  with e1 e2 v show ?thesis by simp
qed

subsection \<open>C7: the exit code of the server\<close>

lemma setup_js_exit_code:
  "child_result W (clock s) (setup_only_call W) = Close (Some n) err
   \<Longrightarrow> fst (setup_js W s) = ProcessExit n"
  by (simp add: setup_js_def spawn_def)

lemma on_server_close_nonzero:
  "code \<noteq> Some 0 \<Longrightarrow>
   deliver (ServerClose code) (launched s) =
     \<lparr>prog = printStatus (''Server exited with code '' @ string_of_code code) Error s,
      server_open = False, ended = Some 0\<rparr>"
  by (simp add: launched_def on_server_close_def)

text \<open>
  C7. When the server closes with exit code 1, the handler prints
  \<open>Server exited with code 1\<close> as an error and starts no process; the launcher then ends
  with status 0, not 1. The handler of \<open>bin/setup.js\<close>, by contrast, ends its process
  with the exit code of its child (lemma \<open>setup_js_exit_code\<close>).
\<close>

theorem server_exit_code_not_propagated:
  "deliver (ServerClose (Some 1)) (launched init) =
     \<lparr>prog = \<lparr>clock = 0, trace = [Print Error ''Server exited with code 1'']\<rparr>,
      server_open = False, ended = Some 0\<rparr>
   \<and> ended (deliver (ServerClose (Some 1)) (launched init)) \<noteq> Some 1
   \<and> spawn_calls (trace (prog (deliver (ServerClose (Some 1)) (launched init)))) = []"
  by (simp add: launched_def on_server_close_def init_def printStatus_def string_of_code_def
        digit_char_def)

end
